theory Spec2Isabelle
  imports Main "HOL-Library.Word"
begin

unbundle bit_operations_syntax

section \<open>Bytes and Go strings\<close>

text \<open>
  A Go \<^verbatim>\<open>[]byte\<close> is a list of 8-bit words. A Go \<^verbatim>\<open>string\<close> is an immutable
  byte sequence as well; it is modelled by \<^typ>\<open>string\<close>, whose characters are bytes,
  so \<^verbatim>\<open>len(s)\<close> is \<^term>\<open>length s\<close>. The conversions \<^verbatim>\<open>[]byte(s)\<close> and
  \<^verbatim>\<open>string(b)\<close> copy the bytes unchanged.
\<close>

type_synonym byte = "8 word"
type_synonym bytes = "byte list"

definition bytes_of_string :: "string \<Rightarrow> bytes" where
  "bytes_of_string s = map (\<lambda>c. of_nat (of_char c)) s"

definition string_of_bytes :: "bytes \<Rightarrow> string" where
  "string_of_bytes b = map (\<lambda>w. char_of (unat w)) b"

section \<open>crypto/sha256: \<^verbatim>\<open>sha256.Sum256\<close>\<close>

text \<open>
  \<^verbatim>\<open>RSASignerService.ComputeHash\<close> and the offline verifier both call
  \<^verbatim>\<open>sha256.Sum256\<close> of the Go standard library, which returns a \<^verbatim>\<open>[32]byte\<close>.
  The function is embedded as the standard library's portable implementation computes it
  (\<^verbatim>\<open>digest.Reset\<close>, \<^verbatim>\<open>digest.Write\<close>, \<^verbatim>\<open>digest.checkSum\<close> and
  \<^verbatim>\<open>blockGeneric\<close>), on 32-bit words whose addition wraps around.
\<close>

type_synonym uint32 = "32 word"

type_synonym sha256_state =
  "uint32 \<times> uint32 \<times> uint32 \<times> uint32 \<times> uint32 \<times> uint32 \<times> uint32 \<times> uint32"

text \<open>
  The tables \<^verbatim>\<open>_K\<close> and \<^verbatim>\<open>init0 ... init7\<close> of the package are given here by what
  defines them: the first 32 bits of the fractional part of the cube root of each of the
  first 64 primes, and of the square root of each of the first 8. \<open>iroot k n\<close> is the
  integer \<open>k\<close>-th root of \<open>n\<close>, built bit by bit from the top.
\<close>

definition is_prime_nat :: "nat \<Rightarrow> bool" where
  "is_prime_nat n = (2 \<le> n \<and> list_all (\<lambda>d. n mod d \<noteq> 0) [2..<n])"

definition first_primes :: "nat list" where
  "first_primes = filter is_prime_nat [2..<312]"

definition iroot :: "nat \<Rightarrow> int \<Rightarrow> int" where
  "iroot k n = foldl (\<lambda>r b. if (r + 2 ^ b) ^ k \<le> n then r + 2 ^ b else r) 0 (rev [0..<64])"

definition sha256_K :: "uint32 list" where
  "sha256_K = map (\<lambda>p. of_int (iroot 3 (int p * 2 ^ 96))) first_primes"

definition sha256_init :: sha256_state where
  "sha256_init =
     (case map (\<lambda>p. of_int (iroot 2 (int p * 2 ^ 64))) (take 8 first_primes) of
        [h0, h1, h2, h3, h4, h5, h6, h7] \<Rightarrow> (h0, h1, h2, h3, h4, h5, h6, h7)
      | other \<Rightarrow> (0, 0, 0, 0, 0, 0, 0, 0))"

text \<open>\<^verbatim>\<open>uint32(p[j])<<24 | uint32(p[j+1])<<16 | uint32(p[j+2])<<8 | uint32(p[j+3])\<close>\<close>

definition be_uint32 :: "bytes \<Rightarrow> nat \<Rightarrow> uint32" where
  "be_uint32 p j =
     push_bit 24 (ucast (p ! j)) OR push_bit 16 (ucast (p ! (j + 1)))
       OR push_bit 8 (ucast (p ! (j + 2))) OR ucast (p ! (j + 3))"

text \<open>\<^verbatim>\<open>binary.BigEndian.PutUint32\<close> and \<^verbatim>\<open>binary.BigEndian.PutUint64\<close>.\<close>

definition put_uint32 :: "uint32 \<Rightarrow> bytes" where
  "put_uint32 v = [ucast (drop_bit 24 v), ucast (drop_bit 16 v), ucast (drop_bit 8 v), ucast v]"

definition put_uint64 :: "64 word \<Rightarrow> bytes" where
  "put_uint64 v =
     [ucast (drop_bit 56 v), ucast (drop_bit 48 v), ucast (drop_bit 40 v), ucast (drop_bit 32 v),
      ucast (drop_bit 24 v), ucast (drop_bit 16 v), ucast (drop_bit 8 v), ucast v]"

text \<open>
  The message schedule of one 64-byte chunk: sixteen words read from the chunk, then
  \<^verbatim>\<open>w[i] = t1 + w[i-7] + t2 + w[i-16]\<close> for \<^verbatim>\<open>i\<close> from 16 to 63.
  \<^verbatim>\<open>bits.RotateLeft32(v, -k)\<close> rotates right by \<^verbatim>\<open>k\<close>.
\<close>

definition sha256_schedule_step :: "uint32 list \<Rightarrow> nat \<Rightarrow> uint32 list" where
  "sha256_schedule_step w i =
     (let v1 = w ! (i - 2);
          t1 = word_rotr 17 v1 XOR word_rotr 19 v1 XOR drop_bit 10 v1;
          v2 = w ! (i - 15);
          t2 = word_rotr 7 v2 XOR word_rotr 18 v2 XOR drop_bit 3 v2
      in w @ [t1 + w ! (i - 7) + t2 + w ! (i - 16)])"

definition sha256_schedule :: "bytes \<Rightarrow> uint32 list" where
  "sha256_schedule p =
     foldl sha256_schedule_step (map (\<lambda>i. be_uint32 p (i * 4)) [0..<16]) [16..<64]"

text \<open>One of the 64 rounds on the working variables \<^verbatim>\<open>a, ..., h\<close>.\<close>

definition sha256_round :: "uint32 list \<Rightarrow> sha256_state \<Rightarrow> nat \<Rightarrow> sha256_state" where
  "sha256_round w s i =
     (case s of (a, b, c, d, e, f, g, h) \<Rightarrow>
        let t1 = h + (word_rotr 6 e XOR word_rotr 11 e XOR word_rotr 25 e)
                   + ((e AND f) XOR (NOT e AND g)) + sha256_K ! i + w ! i;
            t2 = (word_rotr 2 a XOR word_rotr 13 a XOR word_rotr 22 a)
                   + ((a AND b) XOR (a AND c) XOR (b AND c))
        in (t1 + t2, a, b, c, d + t1, e, f, g))"

text \<open>The body of \<^verbatim>\<open>blockGeneric\<close>'s loop for one chunk \<^verbatim>\<open>p[:64]\<close>.\<close>

definition sha256_block :: "sha256_state \<Rightarrow> bytes \<Rightarrow> sha256_state" where
  "sha256_block s p =
     (case s of (h0, h1, h2, h3, h4, h5, h6, h7) \<Rightarrow>
        case foldl (sha256_round (sha256_schedule p)) s [0..<64] of
          (a, b, c, d, e, f, g, h) \<Rightarrow>
            (h0 + a, h1 + b, h2 + c, h3 + d, h4 + e, h5 + f, h6 + g, h7 + h))"

text \<open>
  \<^verbatim>\<open>for len(p) >= chunk { ...; p = p[chunk:] }\<close>: the chunks are consumed in order; a
  tail shorter than 64 bytes is left alone (after padding there is none).
\<close>

definition sha256_blocks :: "sha256_state \<Rightarrow> bytes \<Rightarrow> sha256_state" where
  "sha256_blocks s p =
     foldl (\<lambda>st k. sha256_block st (take 64 (drop (64 * k) p))) s [0..<length p div 64]"

text \<open>
  \<^verbatim>\<open>checkSum\<close> pads with \<^verbatim>\<open>0x80\<close>, zeros up to 56 bytes modulo 64, and the length in
  bits as a big-endian \<^verbatim>\<open>uint64\<close> (\<^verbatim>\<open>len<<3\<close>, wrapping); the digest is the eight
  state words in big-endian order.
\<close>

definition sha256_padding :: "nat \<Rightarrow> bytes" where
  "sha256_padding len =
     (let t = (if len mod 64 < 56 then 56 - len mod 64 else 64 + 56 - len mod 64)
      in 0x80 # replicate (t - 1) 0 @ put_uint64 (push_bit 3 (of_nat len)))"

definition sha256_Sum256 :: "bytes \<Rightarrow> bytes" where
  "sha256_Sum256 data =
     (case sha256_blocks sha256_init (data @ sha256_padding (length data)) of
        (h0, h1, h2, h3, h4, h5, h6, h7) \<Rightarrow>
          put_uint32 h0 @ put_uint32 h1 @ put_uint32 h2 @ put_uint32 h3 @
          put_uint32 h4 @ put_uint32 h5 @ put_uint32 h6 @ put_uint32 h7)"

section \<open>encoding/hex: \<^verbatim>\<open>hex.EncodeToString\<close>\<close>

text \<open>
  Every byte becomes two characters of the table \<^verbatim>\<open>"0123456789abcdef"\<close>: the high
  nibble \<^verbatim>\<open>v >> 4\<close> first, then the low nibble \<^verbatim>\<open>v & 0x0f\<close>.
\<close>

definition hextable :: string where
  "hextable = ''0123456789abcdef''"

definition hex_EncodeToString :: "bytes \<Rightarrow> string" where
  "hex_EncodeToString src =
     concat (map (\<lambda>v. [hextable ! unat (drop_bit 4 v), hextable ! unat (v AND 0x0f)]) src)"

section \<open>Go errors\<close>

text \<open>
  A Go \<^verbatim>\<open>error\<close> is a value; \<^verbatim>\<open>nil\<close> is \<open>None\<close>. The values are: the two
  sentinels of package \<^verbatim>\<open>store\<close>, \<^verbatim>\<open>sql.ErrNoRows\<close>, errors made on the spot by
  \<^verbatim>\<open>errors.New\<close>, errors that wrap another one (\<^verbatim>\<open>fmt.Errorf("...: %w", err)\<close>),
  errors that only print another one (\<^verbatim>\<open>%v\<close>, \<^verbatim>\<open>%s\<close>), errors that come out
  of a library, the driver or the operating system (\<open>Lib\<close>, with its text), and a
  run-time panic, which ends the call (\<open>Panic\<close>).
\<close>

datatype error =
    ErrBlobNotFound
  | ErrBlobExists
  | ErrNoRows
  | Lib string
  | New string
  | Wrap string error
  | Fmt string error
  | Panic string

text \<open>\<^verbatim>\<open>errors.Is\<close>: the error itself or anything it wraps with \<^verbatim>\<open>%w\<close>.\<close>

fun errors_Is :: "error \<Rightarrow> error \<Rightarrow> bool" where
  "errors_Is (Wrap m e) target = (Wrap m e = target \<or> errors_Is e target)"
| "errors_Is e target = (e = target)"

section \<open>github.com/google/uuid\<close>

text \<open>
  \<^verbatim>\<open>type UUID [16]byte\<close>: a list of bytes, of length 16 wherever the program has one.
  \<^verbatim>\<open>UUID.String\<close> writes the canonical form
  \<^verbatim>\<open>xxxxxxxx-xxxx-xxxx-xxxx-xxxxxxxxxxxx\<close> in lower-case hexadecimal; \<^verbatim>\<open>uuid.Parse\<close>
  reads that form, the same with a \<^verbatim>\<open>urn:uuid:\<close> prefix, the same between braces, and
  32 hexadecimal digits without hyphens.
\<close>

type_synonym UUID = bytes

definition uuid_String :: "UUID \<Rightarrow> string" where
  "uuid_String u =
     hex_EncodeToString (take 4 u) @ ''-'' @ hex_EncodeToString (take 2 (drop 4 u)) @ ''-'' @
     hex_EncodeToString (take 2 (drop 6 u)) @ ''-'' @ hex_EncodeToString (take 2 (drop 8 u)) @ ''-'' @
     hex_EncodeToString (drop 10 u)"

text \<open>\<^verbatim>\<open>xvalues\<close>: the value of a hexadecimal digit, or 255.\<close>

definition xvalues :: "char \<Rightarrow> byte" where
  "xvalues c =
     (let n = (of_char c :: nat)
      in if 48 \<le> n \<and> n \<le> 57 then of_nat (n - 48)
         else if 97 \<le> n \<and> n \<le> 102 then of_nat (n - 87)
         else if 65 \<le> n \<and> n \<le> 70 then of_nat (n - 55)
         else 255)"

text \<open>\<^verbatim>\<open>xtob\<close>: \<^verbatim>\<open>(b1 << 4) | b2, b1 != 255 && b2 != 255\<close>.\<close>

definition xtob :: "char \<Rightarrow> char \<Rightarrow> byte \<times> bool" where
  "xtob x1 x2 =
     (let b1 = xvalues x1; b2 = xvalues x2
      in (push_bit 4 b1 OR b2, b1 \<noteq> 255 \<and> b2 \<noteq> 255))"

text \<open>
  The loop \<^verbatim>\<open>for i, x := range offsets { v, ok := xtob(s[x], s[x+1]); ... }\<close>: the bytes
  read at the given offsets, or nothing at the first pair that is not hexadecimal.
\<close>

fun xtob_at :: "string \<Rightarrow> nat list \<Rightarrow> bytes option" where
  "xtob_at s [] = Some []"
| "xtob_at s (x # xs) =
     (case xtob (s ! x) (s ! (x + 1)) of
        (v, ok) \<Rightarrow>
          if \<not> ok then None
          else (case xtob_at s xs of None \<Rightarrow> None | Some vs \<Rightarrow> Some (v # vs)))"

definition ascii_lower :: "char \<Rightarrow> char" where
  "ascii_lower c =
     (let n = (of_char c :: nat) in if 65 \<le> n \<and> n \<le> 90 then char_of (n + 32) else c)"

definition uuid_Parse :: "string \<Rightarrow> error + UUID" where
  "uuid_Parse s0 =
     (let n = length s0 in
      if n = 32 then
        (case xtob_at s0 (map (\<lambda>i. i * 2) [0..<16]) of
           None \<Rightarrow> Inl (New ''invalid UUID format'')
         | Some u \<Rightarrow> Inr u)
      else if n \<noteq> 36 \<and> n \<noteq> 36 + 9 \<and> n \<noteq> 36 + 2 then Inl (Lib ''invalid UUID length'')
      else if n = 36 + 9 \<and> map ascii_lower (take 9 s0) \<noteq> ''urn:uuid:'' then
        Inl (Lib ''invalid urn prefix'')
      else
        (let s = (if n = 36 + 9 then drop 9 s0 else if n = 36 + 2 then drop 1 s0 else s0) in
         if s ! 8 \<noteq> CHR ''-'' \<or> s ! 13 \<noteq> CHR ''-'' \<or> s ! 18 \<noteq> CHR ''-'' \<or> s ! 23 \<noteq> CHR ''-''
         then Inl (New ''invalid UUID format'')
         else
           (case xtob_at s [0, 2, 4, 6, 9, 11, 14, 16, 19, 21, 24, 26, 28, 30, 32, 34] of
              None \<Rightarrow> Inl (New ''invalid UUID format'')
            | Some u \<Rightarrow> Inr u)))"

section \<open>PostgreSQL: the \<^verbatim>\<open>signed_blobs\<close> table\<close>

text \<open>
  The migration creates
  \<^verbatim>\<open>signed_blobs (uuid UUID PRIMARY KEY, blob TEXT, hash VARCHAR(64), timestamp TEXT, signature BYTEA)\<close>,
  every column \<^verbatim>\<open>NOT NULL\<close>. The table is a finite map from the key to the other four
  columns: the primary key allows one row per key.
\<close>

record row =
  row_blob :: string
  row_hash :: string
  row_timestamp :: string
  row_signature :: bytes

type_synonym signed_blobs = "UUID \<rightharpoonup> row"

text \<open>
  The server reads a \<^verbatim>\<open>uuid\<close> value from text with its input function: an optional
  opening brace, sixteen pairs of hexadecimal digits, a hyphen allowed after every second
  pair but the last, the closing brace when there was an opening one, and nothing after.
  \<open>pg_uuid_pairs k i src\<close> reads the \<open>k\<close> pairs that remain when \<open>i\<close> are done.
  It writes a \<^verbatim>\<open>uuid\<close> value in the canonical lower-case form.
\<close>

definition isxdigit :: "char \<Rightarrow> bool" where
  "isxdigit c = (xvalues c \<noteq> 255)"

fun pg_uuid_pairs :: "nat \<Rightarrow> nat \<Rightarrow> string \<Rightarrow> (bytes \<times> string) option" where
  "pg_uuid_pairs 0 i src = Some ([], src)"
| "pg_uuid_pairs (Suc k) i (c1 # c2 # rest) =
     (if \<not> isxdigit c1 \<or> \<not> isxdigit c2 then None
      else
        (let rest' = (case rest of
                        d # r \<Rightarrow> if d = CHR ''-'' \<and> i mod 2 = 1 \<and> i < 15 then r else rest
                      | [] \<Rightarrow> rest)
         in case pg_uuid_pairs k (i + 1) rest' of
              None \<Rightarrow> None
            | Some (bs, left) \<Rightarrow> Some ((push_bit 4 (xvalues c1) OR xvalues c2) # bs, left)))"
| "pg_uuid_pairs (Suc k) i src = None"

definition pg_uuid_in :: "string \<Rightarrow> UUID option" where
  "pg_uuid_in source =
     (let braces = (source \<noteq> [] \<and> hd source = CHR ''{'');
          src = (if braces then tl source else source)
      in case pg_uuid_pairs 16 0 src of
           None \<Rightarrow> None
         | Some (u, left) \<Rightarrow>
             if braces then (if left = ''}'' then Some u else None)
             else (if left = [] then Some u else None))"

definition pg_uuid_out :: "UUID \<Rightarrow> string" where
  "pg_uuid_out u = uuid_String u"

text \<open>
  One statement is one atomic step of the server. \<open>fault\<close> is the error, if any, with
  which the driver or the server fails the statement for a reason of the environment (no
  connection, the context's deadline, a value a column type refuses); the table is then
  unchanged. An \<^verbatim>\<open>INSERT\<close> of a key that has a row violates the primary key.
\<close>

definition pq_invalid_uuid :: error where
  "pq_invalid_uuid = Lib ''pq: invalid input syntax for type uuid''"

definition pq_unique_violation :: error where
  "pq_unique_violation =
     Lib ''pq: duplicate key value violates unique constraint signed_blobs_pkey''"

definition pg_insert ::
  "error option \<Rightarrow> signed_blobs \<Rightarrow> string \<Rightarrow> row \<Rightarrow> error option \<times> signed_blobs" where
  "pg_insert fault tbl uuid_text r =
     (case fault of
        Some e \<Rightarrow> (Some e, tbl)
      | None \<Rightarrow>
          (case pg_uuid_in uuid_text of
             None \<Rightarrow> (Some pq_invalid_uuid, tbl)
           | Some k \<Rightarrow>
               (case tbl k of
                  Some old \<Rightarrow> (Some pq_unique_violation, tbl)
                | None \<Rightarrow> (None, tbl(k \<mapsto> r)))))"

text \<open>
  \<^verbatim>\<open>QueryRowContext(...).Scan(...)\<close> of the \<^verbatim>\<open>SELECT ... WHERE uuid = $1\<close>. The
  parameter is a \<^verbatim>\<open>uuid.UUID\<close>, which reaches the server as its canonical text: the
  key looked up is that value.
\<close>

definition pg_select :: "error option \<Rightarrow> signed_blobs \<Rightarrow> UUID \<Rightarrow> error + (string \<times> row)" where
  "pg_select fault tbl k =
     (case fault of
        Some e \<Rightarrow> Inl e
      | None \<Rightarrow> (case tbl k of None \<Rightarrow> Inl ErrNoRows | Some r \<Rightarrow> Inr (pg_uuid_out k, r)))"

text \<open>\<^verbatim>\<open>SELECT EXISTS(SELECT 1 FROM signed_blobs WHERE uuid = $1)\<close>: one row, one boolean.\<close>

definition pg_select_exists :: "error option \<Rightarrow> signed_blobs \<Rightarrow> UUID \<Rightarrow> error + bool" where
  "pg_select_exists fault tbl k =
     (case fault of Some e \<Rightarrow> Inl e | None \<Rightarrow> Inr (tbl k \<noteq> None))"

text \<open>
  \<^verbatim>\<open>DELETE FROM signed_blobs WHERE uuid = $1\<close> gives an \<^verbatim>\<open>sql.Result\<close>, whose
  \<^verbatim>\<open>RowsAffected\<close> is the number of rows removed (the driver always has it).
\<close>

record sql_Result =
  RowsAffected :: "error + int"

definition pg_delete ::
  "error option \<Rightarrow> signed_blobs \<Rightarrow> UUID \<Rightarrow> (error + sql_Result) \<times> signed_blobs" where
  "pg_delete fault tbl k =
     (case fault of
        Some e \<Rightarrow> (Inl e, tbl)
      | None \<Rightarrow>
          (Inr \<lparr>RowsAffected = Inr (if tbl k \<noteq> None then 1 else 0)\<rparr>, tbl(k := None)))"

section \<open>Package \<^verbatim>\<open>store\<close>: \<^verbatim>\<open>PostgresStorage\<close>\<close>

text \<open>The messages \<^verbatim>\<open>BlobRecord\<close> and \<^verbatim>\<open>SignedBlobRecord\<close> of \<^verbatim>\<open>blob/v1\<close>.\<close>

record BlobRecord =
  Uuid :: string
  Blob :: string
  Hash :: string
  Timestamp :: string

record SignedBlobRecord =
  Payload :: BlobRecord
  Signature :: bytes

text \<open>
  Every method takes the table as it is before the call, and the fault of its one
  statement; a method that writes returns the table as it is after the call. Logging is
  left out.
\<close>

definition Store ::
  "error option \<Rightarrow> signed_blobs \<Rightarrow> SignedBlobRecord \<Rightarrow> error option \<times> signed_blobs" where
  "Store fault tbl record =
     pg_insert fault tbl (Uuid (Payload record))
       \<lparr>row_blob = Blob (Payload record), row_hash = Hash (Payload record),
        row_timestamp = Timestamp (Payload record), row_signature = Signature record\<rparr>"

definition GetByUUID :: "error option \<Rightarrow> signed_blobs \<Rightarrow> UUID \<Rightarrow> error + SignedBlobRecord" where
  "GetByUUID fault tbl uuid =
     (case pg_select fault tbl uuid of
        Inl err \<Rightarrow> if errors_Is err ErrNoRows then Inl ErrBlobNotFound else Inl err
      | Inr (u, r) \<Rightarrow>
          Inr \<lparr>Payload = \<lparr>Uuid = u, Blob = row_blob r, Hash = row_hash r,
                          Timestamp = row_timestamp r\<rparr>,
               Signature = row_signature r\<rparr>)"

text \<open>
  \<^verbatim>\<open>Exists\<close> scans the boolean of the query into \<^verbatim>\<open>exists\<close>, and returns
  \<^verbatim>\<open>false, err\<close> on an error and \<^verbatim>\<open>true, nil\<close> otherwise.
\<close>

definition Exists :: "error option \<Rightarrow> signed_blobs \<Rightarrow> UUID \<Rightarrow> bool \<times> error option" where
  "Exists fault tbl uuid =
     (case pg_select_exists fault tbl uuid of
        Inl err \<Rightarrow> (False, Some err)
      | Inr exists \<Rightarrow> (True, None))"

definition Delete :: "error option \<Rightarrow> signed_blobs \<Rightarrow> UUID \<Rightarrow> error option \<times> signed_blobs" where
  "Delete fault tbl uuid =
     (case pg_delete fault tbl uuid of
        (Inl err, tbl') \<Rightarrow> (Some err, tbl')
      | (Inr result, tbl') \<Rightarrow>
          (case RowsAffected result of
             Inl err \<Rightarrow> (Some err, tbl')
           | Inr rowsAffected \<Rightarrow>
               if rowsAffected = 0 then (Some ErrBlobNotFound, tbl') else (None, tbl')))"

section \<open>Libraries taken as parameters\<close>

text \<open>
  The protobuf encoder, \<^verbatim>\<open>crypto/rsa\<close> and the parsers of the command-line client are
  not part of the repository. Their functions are the fields of a record that every
  operation using them takes: \<^verbatim>\<open>proto.Marshal\<close> on a \<^verbatim>\<open>BlobRecord\<close>,
  \<^verbatim>\<open>rsa.SignPSS\<close> (random source, private key, digest) and \<^verbatim>\<open>rsa.VerifyPSS\<close>
  (public key, digest, signature), both with SHA-256 and a salt as long as the digest,
  \<^verbatim>\<open>json.Unmarshal\<close> into \<^verbatim>\<open>metaData\<close>, \<^verbatim>\<open>base64.StdEncoding.DecodeString\<close>,
  \<^verbatim>\<open>pem.Decode\<close>, \<^verbatim>\<open>x509.ParsePKIXPublicKey\<close> and
  \<^verbatim>\<open>x509.ParsePKCS1PrivateKey\<close>.
\<close>

record rsa_PublicKey =
  pub_N :: nat
  pub_E :: nat

record rsa_PrivateKey =
  PublicKey :: rsa_PublicKey
  priv_D :: nat

datatype public_key = RSA_PublicKey rsa_PublicKey | Other_PublicKey string

record pem_Block =
  pem_Type :: string
  pem_Bytes :: bytes

record metaData =
  meta_UUID :: string
  meta_Hash :: string
  meta_TimeStamp :: string

record libs =
  proto_Marshal :: "BlobRecord \<Rightarrow> error + bytes"
  rsa_SignPSS :: "bytes \<Rightarrow> rsa_PrivateKey \<Rightarrow> bytes \<Rightarrow> error + bytes"
  rsa_VerifyPSS :: "rsa_PublicKey \<Rightarrow> bytes \<Rightarrow> bytes \<Rightarrow> error option"
  json_Unmarshal :: "bytes \<Rightarrow> error + metaData"
  base64_DecodeString :: "string \<Rightarrow> error + bytes"
  pem_Decode :: "bytes \<Rightarrow> pem_Block option"
  x509_ParsePKIXPublicKey :: "bytes \<Rightarrow> error + public_key"
  x509_ParsePKCS1PrivateKey :: "bytes \<Rightarrow> error + rsa_PrivateKey"

text \<open>
  The file system as the client and the signer's constructor see it: \<^verbatim>\<open>os.Stat\<close>,
  \<^verbatim>\<open>filepath.Abs\<close> and \<^verbatim>\<open>os.ReadFile\<close>.
\<close>

record FileInfo =
  IsDir :: bool
  Name :: string

record os =
  os_Stat :: "string \<Rightarrow> error + FileInfo"
  filepath_Abs :: "string \<Rightarrow> error + string"
  os_ReadFile :: "string \<Rightarrow> error + bytes"

section \<open>Package \<^verbatim>\<open>signature\<close>: \<^verbatim>\<open>RSASignerService\<close>\<close>

text \<open>
  The service holds two pointers, either of which may be \<^verbatim>\<open>nil\<close>; the receiver
  \<^verbatim>\<open>s *RSASignerService\<close> may be \<^verbatim>\<open>nil\<close> too.
\<close>

record RSASignerService =
  privateKey :: "rsa_PrivateKey option"
  publicKey :: "rsa_PublicKey option"

text \<open>
  \<^verbatim>\<open>NewRSASignerServiceFromFile\<close> reads and parses the private key and takes the public
  key out of it: \<^verbatim>\<open>publicKey := &privateKey.PublicKey\<close>.
\<close>

definition NewRSASignerServiceFromFile :: "libs \<Rightarrow> os \<Rightarrow> string \<Rightarrow> error + RSASignerService" where
  "NewRSASignerServiceFromFile l fs pemFile =
     (case os_ReadFile fs pemFile of
        Inl err \<Rightarrow> Inl (Wrap ''failed to read private key file'' err)
      | Inr keyBytes \<Rightarrow>
          (case pem_Decode l keyBytes of
             None \<Rightarrow> Inl (New ''failed to decode PEM block containing RSA private key'')
           | Some block \<Rightarrow>
               if pem_Type block \<noteq> ''RSA PRIVATE KEY''
               then Inl (New ''failed to decode PEM block containing RSA private key'')
               else
                 (case x509_ParsePKCS1PrivateKey l (pem_Bytes block) of
                    Inl err \<Rightarrow> Inl (Wrap ''failed to parse RSA private key'' err)
                  | Inr privateKey' \<Rightarrow>
                      Inr \<lparr>privateKey = Some privateKey',
                           publicKey = Some (PublicKey privateKey')\<rparr>)))"

definition rSASignerServiceCheckInit :: "RSASignerService option \<Rightarrow> error option" where
  "rSASignerServiceCheckInit s =
     (case s of
        None \<Rightarrow> Some (New ''RSASignerService has not been initialised properly'')
      | Some sv \<Rightarrow>
          if privateKey sv = None \<or> publicKey sv = None
          then Some (New ''signer service is not properly initialised with keys'')
          else None)"

definition Sign :: "libs \<Rightarrow> RSASignerService option \<Rightarrow> bytes \<Rightarrow> bytes \<Rightarrow> error + bytes" where
  "Sign l s rand blobContent =
     (case rSASignerServiceCheckInit s of
        Some err \<Rightarrow> Inl (Wrap ''failed to sign content'' err)
      | None \<Rightarrow>
          if length blobContent = 0 then Inl (New ''blob content cannot be nil or empty'')
          else
            (let hashed = sha256_Sum256 blobContent in
             case s of
               None \<Rightarrow> Inl (Panic ''nil pointer dereference'')
             | Some sv \<Rightarrow>
                 (case privateKey sv of
                    None \<Rightarrow> Inl (Panic ''nil pointer dereference'')
                  | Some priv \<Rightarrow>
                      (case rsa_SignPSS l rand priv hashed of
                         Inl err \<Rightarrow>
                           Inl (Wrap ''failed to sign blob content using RSASSA-PSS'' err)
                       | Inr signature \<Rightarrow> Inr signature))))"

definition ComputeHash :: "RSASignerService option \<Rightarrow> bytes \<Rightarrow> bytes" where
  "ComputeHash s blobContent = (let hash = sha256_Sum256 blobContent in hash)"

definition VerifySignature ::
  "libs \<Rightarrow> RSASignerService option \<Rightarrow> bytes \<Rightarrow> bytes \<Rightarrow> error option" where
  "VerifySignature l s blobContent signature =
     (case rSASignerServiceCheckInit s of
        Some err \<Rightarrow> Some (Wrap ''signature verification failed'' err)
      | None \<Rightarrow>
          if length blobContent = 0 then Some (New ''blob content cannot be nil or empty'')
          else if length signature = 0
          then Some (New ''signature content cannot be nil or empty'')
          else
            (let hashed = sha256_Sum256 blobContent in
             case s of
               None \<Rightarrow> Some (Panic ''nil pointer dereference'')
             | Some sv \<Rightarrow>
                 (case publicKey sv of
                    None \<Rightarrow> Some (Panic ''nil pointer dereference'')
                  | Some pub \<Rightarrow>
                      (case rsa_VerifyPSS l pub hashed signature of
                         Some err \<Rightarrow>
                           Some (Wrap ''signature verification failed using RSASSA-PSS'' err)
                       | None \<Rightarrow> None))))"

section \<open>Package \<^verbatim>\<open>v1\<close>: the service\<close>

text \<open>
  \<^verbatim>\<open>Service\<close> holds a logger, a \<^verbatim>\<open>store.Storage\<close> and a \<^verbatim>\<open>signature.Signer\<close>.
  The storage is the \<^verbatim>\<open>PostgresStorage\<close> above, whose table each operation takes and
  returns; the signer is the \<^verbatim>\<open>RSASignerService\<close>. A request pointer may be
  \<^verbatim>\<open>nil\<close>.
\<close>

record Service =
  signer :: "RSASignerService option"

record StoreBlobRequest =
  req_Blob :: string

record StoreBlobResponse =
  resp_Uuid :: string

record GetSignedBlobRequest =
  req_Uuid :: string

record GetSignedBlobResponse =
  resp_Payload :: BlobRecord
  resp_Signature :: bytes

definition maxBlobSize :: nat where
  "maxBlobSize = 256 * 1024"

text \<open>
  What one call of \<^verbatim>\<open>StoreBlob\<close> takes from its environment: the value of
  \<^verbatim>\<open>uuid.New()\<close>, the text of \<^verbatim>\<open>time.Now().UTC().Format("2006-01-02T15:04:05Z")\<close>,
  the bytes \<^verbatim>\<open>rand.Reader\<close> gives to the signature, and the fault of the
  \<^verbatim>\<open>INSERT\<close>.
\<close>

record store_env =
  uuid_New :: UUID
  time_Now :: string
  rand_Reader :: bytes
  store_fault :: "error option"

text \<open>
  The work a call has done, in the order of the source: the third component of
  \<^verbatim>\<open>StoreBlob\<close>'s result lists the steps it has reached.
\<close>

datatype work = DidComputeHash | DidNewUuid | DidMarshal | DidSign | DidStore

text \<open>
  The message \<^verbatim>\<open>StoreBlob\<close> signs, and stores again field by field:
  \<^verbatim>\<open>&blobv1.BlobRecord{Uuid: uuidStr, Blob: req.Blob, Hash: encodedHashStr, Timestamp: timestamp}\<close>.
\<close>

definition payloadToBeSigned :: "string \<Rightarrow> string \<Rightarrow> string \<Rightarrow> string \<Rightarrow> BlobRecord" where
  "payloadToBeSigned uuidStr blob encodedHashStr timestamp =
     \<lparr>Uuid = uuidStr, Blob = blob, Hash = encodedHashStr, Timestamp = timestamp\<rparr>"

definition StoreBlob ::
  "libs \<Rightarrow> Service \<Rightarrow> store_env \<Rightarrow> signed_blobs \<Rightarrow> StoreBlobRequest option \<Rightarrow>
     (error + StoreBlobResponse) \<times> signed_blobs \<times> work list" where
  "StoreBlob l s env tbl req =
     (case req of
        None \<Rightarrow> (Inl (New ''request cannot be nil''), tbl, [])
      | Some rq \<Rightarrow>
          if req_Blob rq = [] then (Inl (New ''blob content cannot be empty''), tbl, [])
          else if length (req_Blob rq) > maxBlobSize
          then (Inl (New ''blob content exceeds maximum size of 262144 bytes''), tbl, [])
          else
            (let hash = ComputeHash (signer s) (bytes_of_string (req_Blob rq)) in
             if length hash = 0
             then (Inl (New ''failed to compute hash for blob content''), tbl, [DidComputeHash])
             else
               (let encodedHashStr = hex_EncodeToString hash;
                    uuidStr = uuid_String (uuid_New env);
                    timestamp = time_Now env
                in case proto_Marshal l
                          (payloadToBeSigned uuidStr (req_Blob rq) encodedHashStr timestamp) of
                     Inl err \<Rightarrow>
                       (Inl (Wrap ''failed to marshal payload'' err), tbl,
                        [DidComputeHash, DidNewUuid, DidMarshal])
                   | Inr serialisedPayload \<Rightarrow>
                       (case Sign l (signer s) (rand_Reader env) serialisedPayload of
                          Inl err \<Rightarrow>
                            (Inl (Wrap ''failed to sign payload'' err), tbl,
                             [DidComputeHash, DidNewUuid, DidMarshal, DidSign])
                        | Inr sig \<Rightarrow>
                            (let recordWithSignature =
                                   \<lparr>Payload = \<lparr>Uuid = uuidStr, Blob = req_Blob rq,
                                               Hash = encodedHashStr, Timestamp = timestamp\<rparr>,
                                    Signature = sig\<rparr>
                             in case Store (store_fault env) tbl recordWithSignature of
                                  (Some err, tbl') \<Rightarrow>
                                    (Inl (Wrap ''failed to store signed record'' err), tbl',
                                     [DidComputeHash, DidNewUuid, DidMarshal, DidSign, DidStore])
                                | (None, tbl') \<Rightarrow>
                                    (Inr \<lparr>resp_Uuid = uuidStr\<rparr>, tbl',
                                     [DidComputeHash, DidNewUuid, DidMarshal, DidSign,
                                      DidStore]))))))"

text \<open>\<^verbatim>\<open>GetSignedBlob\<close> reads the table and leaves it as it is.\<close>

definition GetSignedBlob ::
  "error option \<Rightarrow> signed_blobs \<Rightarrow> GetSignedBlobRequest option \<Rightarrow> error + GetSignedBlobResponse" where
  "GetSignedBlob fault tbl req =
     (case req of
        None \<Rightarrow> Inl (New ''request cannot be nil'')
      | Some rq \<Rightarrow>
          if req_Uuid rq = [] then Inl (New ''UUID cannot be empty'')
          else
            (case uuid_Parse (req_Uuid rq) of
               Inl err \<Rightarrow> Inl (Wrap ''invalid UUID format'' err)
             | Inr uuid \<Rightarrow>
                 (case GetByUUID fault tbl uuid of
                    Inl err \<Rightarrow>
                      if errors_Is err ErrBlobNotFound then Inl (Wrap ''blob not found'' err)
                      else Inl (Wrap ''failed to retrieve blob'' err)
                  | Inr blobRow \<Rightarrow>
                      (let signature = Signature blobRow in
                       if length signature = 0 then Inl (New ''signature is empty'')
                       else
                         Inr \<lparr>resp_Payload =
                                \<lparr>Uuid = Uuid (Payload blobRow), Blob = Blob (Payload blobRow),
                                 Hash = Hash (Payload blobRow),
                                 Timestamp = Timestamp (Payload blobRow)\<rparr>,
                              resp_Signature = signature\<rparr>))))"

section \<open>The command-line client: \<^verbatim>\<open>verify\<close>\<close>

text \<open>
  \<^verbatim>\<open>verifyCommand.RunE\<close> either returns (an error, or \<^verbatim>\<open>nil\<close> for success) or ends
  the process through \<^verbatim>\<open>log.Fatal\<close>. Its two flags are \<^verbatim>\<open>verifyDir\<close> and
  \<^verbatim>\<open>publicKeyPath\<close>. The closure is embedded in two parts, in the order of the source:
  loading the three artefacts (up to the decoding of the signature), and the checks on
  them. The usage message is given without the name of the program.
\<close>

datatype exit = Returned "error option" | Fatal string

definition getAbsolutePath :: "os \<Rightarrow> string \<Rightarrow> error + string" where
  "getAbsolutePath fs fileName =
     (if fileName = [] then Inl (New ''empty filename passed'')
      else
        (case filepath_Abs fs fileName of
           Inl err \<Rightarrow> Inl (Wrap ''unable to get full path of the filename'' err)
         | Inr absPath \<Rightarrow> Inr absPath))"

definition verifyCommand_load ::
  "libs \<Rightarrow> os \<Rightarrow> string \<Rightarrow> string list \<Rightarrow> error + (metaData \<times> bytes \<times> bytes)" where
  "verifyCommand_load l fs verifyDir args =
     (case args of
        [] \<Rightarrow> Inl (New ''usage: verify <uuid> --public-key <path> --dir <directory>'')
      | blobUUID # more_args \<Rightarrow>
          (case os_Stat fs verifyDir of
             Inl err \<Rightarrow> Inl (Fmt ''failed to read'' err)
           | Inr stat \<Rightarrow>
               if \<not> IsDir stat then Inl (New (Name stat @ '' is not a directory''))
               else
          (case getAbsolutePath fs (verifyDir @ ''/'' @ blobUUID @ ''.meta.json'') of
             Inl err \<Rightarrow> Inl (Wrap ''unable to read metadata file JSON'' err)
           | Inr metaFile \<Rightarrow>
          (case getAbsolutePath fs (verifyDir @ ''/'' @ blobUUID @ ''.sig'') of
             Inl err \<Rightarrow> Inl (Wrap ''unable to read signature file'' err)
           | Inr sigFile \<Rightarrow>
          (case getAbsolutePath fs (verifyDir @ ''/'' @ blobUUID @ ''.txt'') of
             Inl err \<Rightarrow> Inl (Wrap ''unable to read blob content file'' err)
           | Inr blobFile \<Rightarrow>
          (case os_ReadFile fs metaFile of
             Inl err \<Rightarrow> Inl (Wrap ''failed to read metadata'' err)
           | Inr metaBytes \<Rightarrow>
          (case json_Unmarshal l metaBytes of
             Inl err \<Rightarrow> Inl (Wrap ''failed to parse metadata'' err)
           | Inr meta \<Rightarrow>
          (case os_ReadFile fs blobFile of
             Inl err \<Rightarrow> Inl (Wrap ''failed to read blob content'' err)
           | Inr blobBytes \<Rightarrow>
          (case os_ReadFile fs sigFile of
             Inl err \<Rightarrow> Inl (Wrap ''failed to read signature'' err)
           | Inr sigBase64 \<Rightarrow>
          (case base64_DecodeString l (string_of_bytes sigBase64) of
             Inl err \<Rightarrow> Inl (Wrap ''invalid base64 in signature file'' err)
           | Inr sig \<Rightarrow> Inr (meta, blobBytes, sig)))))))))))"

text \<open>
  The message the verifier rebuilds:
  \<^verbatim>\<open>&blobv1.BlobRecord{Uuid: meta.UUID, Blob: string(blobBytes), Hash: meta.Hash, Timestamp: meta.TimeStamp}\<close>.
\<close>

definition verifyCommand_payload :: "metaData \<Rightarrow> bytes \<Rightarrow> BlobRecord" where
  "verifyCommand_payload meta blobBytes =
     \<lparr>Uuid = meta_UUID meta, Blob = string_of_bytes blobBytes, Hash = meta_Hash meta,
      Timestamp = meta_TimeStamp meta\<rparr>"

text \<open>
  The steps of the checks, in the order of the source; the second component of the
  result lists the steps a run has reached.
\<close>

datatype vwork =
    DidHashContent | DidMarshalPayload | DidReadPublicKey | DidDecodePEM | DidParsePublicKey
  | DidHashPayload | DidVerifyPSS

definition verifyCommand_check ::
  "libs \<Rightarrow> os \<Rightarrow> string \<Rightarrow> metaData \<Rightarrow> bytes \<Rightarrow> bytes \<Rightarrow> exit \<times> vwork list" where
  "verifyCommand_check l fs publicKeyPath meta blobBytes sig =
     (let hash = sha256_Sum256 blobBytes;
          computedHash = hex_EncodeToString hash
      in if computedHash \<noteq> meta_Hash meta
         then (Returned (Some (New (''hash mismatch! Expected: '' @ meta_Hash meta @
                                     '', Computed: '' @ computedHash))),
               [DidHashContent])
         else
           (case proto_Marshal l (verifyCommand_payload meta blobBytes) of
              Inl err \<Rightarrow>
                (Returned (Some (Wrap ''failed to marshal payload for verification'' err)),
                 [DidHashContent, DidMarshalPayload])
            | Inr payloadBytes \<Rightarrow>
           (case os_ReadFile fs publicKeyPath of
              Inl err \<Rightarrow>
                (Returned (Some (Wrap ''failed to read public key'' err)),
                 [DidHashContent, DidMarshalPayload, DidReadPublicKey])
            | Inr pubBytes \<Rightarrow>
           (case pem_Decode l pubBytes of
              None \<Rightarrow>
                (Returned (Some (New ''invalid PEM format for public key'')),
                 [DidHashContent, DidMarshalPayload, DidReadPublicKey, DidDecodePEM])
            | Some block \<Rightarrow>
                if pem_Type block \<noteq> ''PUBLIC KEY''
                then (Returned (Some (New ''invalid PEM format for public key'')),
                      [DidHashContent, DidMarshalPayload, DidReadPublicKey, DidDecodePEM])
                else
           (case x509_ParsePKIXPublicKey l (pem_Bytes block) of
              Inl err \<Rightarrow>
                (Returned (Some (Wrap ''failed to parse public key'' err)),
                 [DidHashContent, DidMarshalPayload, DidReadPublicKey, DidDecodePEM,
                  DidParsePublicKey])
            | Inr (Other_PublicKey kind) \<Rightarrow>
                (Fatal ''public key is not RSA, We use RSAPSS'',
                 [DidHashContent, DidMarshalPayload, DidReadPublicKey, DidDecodePEM,
                  DidParsePublicKey])
            | Inr (RSA_PublicKey rsaPubKey) \<Rightarrow>
                (let hashed = sha256_Sum256 payloadBytes in
                 case rsa_VerifyPSS l rsaPubKey hashed sig of
                   Some err \<Rightarrow>
                     (Returned (Some (Fmt ''signature verification failed'' err)),
                      [DidHashContent, DidMarshalPayload, DidReadPublicKey, DidDecodePEM,
                       DidParsePublicKey, DidHashPayload, DidVerifyPSS])
                 | None \<Rightarrow>
                     (Returned None,
                      [DidHashContent, DidMarshalPayload, DidReadPublicKey, DidDecodePEM,
                       DidParsePublicKey, DidHashPayload, DidVerifyPSS])))))))"

definition verifyCommand ::
  "libs \<Rightarrow> os \<Rightarrow> string \<Rightarrow> string \<Rightarrow> string list \<Rightarrow> exit \<times> vwork list" where
  "verifyCommand l fs verifyDir publicKeyPath args =
     (case verifyCommand_load l fs verifyDir args of
        Inl err \<Rightarrow> (Returned (Some err), [])
      | Inr (meta, blobBytes, sig) \<Rightarrow> verifyCommand_check l fs publicKeyPath meta blobBytes sig)"

section \<open>Auxiliary definitions for the proofs\<close>

text \<open>The two characters \<^verbatim>\<open>hex.EncodeToString\<close> writes for one byte.\<close>

definition hexhi :: "byte \<Rightarrow> char" where
  "hexhi v = hextable ! unat (drop_bit 4 v)"

definition hexlo :: "byte \<Rightarrow> char" where
  "hexlo v = hextable ! unat (v AND 0x0f)"

text \<open>
  What the round trip asks of \<^verbatim>\<open>crypto/rsa\<close>: a signature that \<^verbatim>\<open>SignPSS\<close> returns
  is not empty, and \<^verbatim>\<open>VerifyPSS\<close> accepts it for the same digest under the public
  half of the signing key.
\<close>

definition pss_sound :: "libs \<Rightarrow> bool" where
  "pss_sound l =
     (\<forall>rand priv digest sig.
        rsa_SignPSS l rand priv digest = Inr sig \<longrightarrow>
          sig \<noteq> [] \<and> rsa_VerifyPSS l (PublicKey priv) digest sig = None)"

text \<open>
  An instance of the libraries and of the file system, for running the operations on
  concrete inputs: an encoder that writes the four fields in order, each after its tag
  byte; a signature scheme whose signature is the digest behind a byte of the key; a
  file system with a private key in \<^verbatim>\<open>private_key.pem\<close> and a public key in every
  other file.
\<close>

definition demo_Marshal :: "BlobRecord \<Rightarrow> error + bytes" where
  "demo_Marshal r =
     Inr (0x0a # bytes_of_string (Uuid r) @ 0x12 # bytes_of_string (Blob r) @
          0x1a # bytes_of_string (Hash r) @ 0x22 # bytes_of_string (Timestamp r))"

definition demo_key :: rsa_PrivateKey where
  "demo_key = \<lparr>PublicKey = \<lparr>pub_N = 3233, pub_E = 17\<rparr>, priv_D = 2753\<rparr>"

definition demo_libs :: libs where
  "demo_libs =
     \<lparr>proto_Marshal = demo_Marshal,
      rsa_SignPSS = (\<lambda>rand priv digest. Inr (of_nat (pub_N (PublicKey priv)) # digest)),
      rsa_VerifyPSS = (\<lambda>pub digest sig.
         if sig = of_nat (pub_N pub) # digest then None
         else Some (Lib ''crypto/rsa: verification error'')),
      json_Unmarshal = (\<lambda>b. Inl (Lib ''unexpected end of JSON input'')),
      base64_DecodeString = (\<lambda>s. Inr (bytes_of_string s)),
      pem_Decode = (\<lambda>b. Some \<lparr>pem_Type = (if b = [1] then ''RSA PRIVATE KEY'' else ''PUBLIC KEY''),
                                pem_Bytes = b\<rparr>),
      x509_ParsePKIXPublicKey = (\<lambda>b. Inr (RSA_PublicKey (PublicKey demo_key))),
      x509_ParsePKCS1PrivateKey = (\<lambda>b. Inr demo_key)\<rparr>"

definition demo_os :: os where
  "demo_os =
     \<lparr>os_Stat = (\<lambda>p. Inr \<lparr>IsDir = True, Name = p\<rparr>),
      filepath_Abs = (\<lambda>p. Inr p),
      os_ReadFile = (\<lambda>p. if p = ''private_key.pem'' then Inr [1] else Inr [2])\<rparr>"

definition demo_signer :: RSASignerService where
  "demo_signer = \<lparr>privateKey = Some demo_key, publicKey = Some (PublicKey demo_key)\<rparr>"

definition demo_uuid :: UUID where
  "demo_uuid =
     [0x55, 0x0e, 0x84, 0x00, 0xe2, 0x9b, 0x41, 0xd4, 0xa7, 0x16, 0x44, 0x66, 0x55, 0x44, 0x00, 0x00]"

definition demo_env :: store_env where
  "demo_env =
     \<lparr>uuid_New = demo_uuid, time_Now = ''2025-07-30T16:52:13Z'', rand_Reader = [],
      store_fault = None\<rparr>"

section \<open>Properties of the libraries' functions\<close>

lemma put_uint32_length: "length (put_uint32 v) = 4"
  by (simp add: put_uint32_def)

lemma sha256_Sum256_length: "length (sha256_Sum256 d) = 32"
  by (simp add: sha256_Sum256_def put_uint32_length split: prod.splits)

lemma hex_EncodeToString_length: "length (hex_EncodeToString src) = 2 * length src"
  by (induction src) (simp_all add: hex_EncodeToString_def)

lemma hex_EncodeToString_Nil: "hex_EncodeToString [] = []"
  by (simp add: hex_EncodeToString_def)

lemma hex_EncodeToString_Cons:
  "hex_EncodeToString (v # vs) = hexhi v # hexlo v # hex_EncodeToString vs"
  by (simp add: hex_EncodeToString_def hexhi_def hexlo_def)

lemma nat_less_16_cases:
  "n < 16 \<Longrightarrow> n \<in> {0, 1, 2, 3, 4, 5, 6, 7, 8, 9, 10, 11, 12, 13, 14, 15::nat}"
  by (simp only: insert_iff empty_iff) arith

lemma xvalues_hextable: "n < 16 \<Longrightarrow> xvalues (hextable ! n) = of_nat n"
  using nat_less_16_cases [of n] by (auto simp: xvalues_def hextable_def)

lemma hi_nibble_less: "unat (drop_bit 4 (v :: byte)) < 16"
proof -
  have "unat v < 256" using unsigned_less [of v, where ?'a = nat] by simp
  then show ?thesis by (simp add: drop_bit_eq_div unat_div)
qed

lemma lo_nibble_less: "unat ((v :: byte) AND 0x0f) < 16"
proof -
  have "(0x0f :: byte) = mask 4" by (simp add: mask_eq_exp_minus_1)
  then have "v AND 0x0f = take_bit 4 v" by (simp add: take_bit_eq_mask)
  then have "unat (v AND 0x0f) = take_bit 4 (unat v)" by (simp add: unsigned_take_bit_eq)
  also have "\<dots> < 2 ^ 4" by (rule take_bit_nat_less_exp)
  finally show ?thesis by simp
qed

lemma nibbles_join: "push_bit 4 (drop_bit 4 (v :: byte)) OR (v AND 0x0f) = v"
proof -
  have m: "(0x0f :: byte) = mask 4" by (simp add: mask_eq_exp_minus_1)
  show ?thesis
    unfolding m by (rule bit_word_eqI) (auto simp: bit_simps)
qed

lemma of_nat_nibble_neq: "n < 16 \<Longrightarrow> (of_nat n :: byte) \<noteq> 255"
  using nat_less_16_cases [of n] by auto

lemma xvalues_hexhi: "xvalues (hexhi v) = drop_bit 4 v"
  by (simp add: hexhi_def xvalues_hextable hi_nibble_less)

lemma xvalues_hexlo: "xvalues (hexlo v) = v AND 0x0f"
  by (simp add: hexlo_def xvalues_hextable lo_nibble_less)

lemma xvalues_hexhi_neq: "xvalues (hexhi v) \<noteq> 255"
  using of_nat_nibble_neq [OF hi_nibble_less [of v]] by (simp add: xvalues_hexhi)

lemma xvalues_hexlo_neq: "xvalues (hexlo v) \<noteq> 255"
  using of_nat_nibble_neq [OF lo_nibble_less [of v]] by (simp add: xvalues_hexlo)

lemma xtob_hex: "xtob (hexhi v) (hexlo v) = (v, True)"
  by (simp add: xtob_def Let_def xvalues_hexhi_neq xvalues_hexlo_neq)
     (simp add: xvalues_hexhi xvalues_hexlo nibbles_join)

lemma isxdigit_hex: "isxdigit (hexhi v)" "isxdigit (hexlo v)"
  by (simp_all add: isxdigit_def xvalues_hexhi_neq xvalues_hexlo_neq)

lemma hex_not_punct:
  "hexhi v \<noteq> CHR ''-''" "hexlo v \<noteq> CHR ''-''" "hexhi v \<noteq> CHR ''{''" "hexlo v \<noteq> CHR ''{''"
proof -
  have a: "xvalues (CHR ''-'') = 255" "xvalues (CHR ''{'') = 255"
    by (simp_all add: xvalues_def)
  show "hexhi v \<noteq> CHR ''-''" "hexlo v \<noteq> CHR ''-''" "hexhi v \<noteq> CHR ''{''" "hexlo v \<noteq> CHR ''{''"
    using a xvalues_hexhi_neq [of v] xvalues_hexlo_neq [of v] by auto
qed

lemma length_16_list:
  assumes "length (u :: 'a list) = 16"
  obtains b0 b1 b2 b3 b4 b5 b6 b7 b8 b9 b10 b11 b12 b13 b14 b15
  where "u = [b0, b1, b2, b3, b4, b5, b6, b7, b8, b9, b10, b11, b12, b13, b14, b15]"
  using assms by (auto simp: numeral_eq_Suc length_Suc_conv)

lemma uuid_String_16:
  "uuid_String [b0, b1, b2, b3, b4, b5, b6, b7, b8, b9, b10, b11, b12, b13, b14, b15] =
     [hexhi b0, hexlo b0, hexhi b1, hexlo b1, hexhi b2, hexlo b2, hexhi b3, hexlo b3, CHR ''-'',
      hexhi b4, hexlo b4, hexhi b5, hexlo b5, CHR ''-'',
      hexhi b6, hexlo b6, hexhi b7, hexlo b7, CHR ''-'',
      hexhi b8, hexlo b8, hexhi b9, hexlo b9, CHR ''-'',
      hexhi b10, hexlo b10, hexhi b11, hexlo b11, hexhi b12, hexlo b12,
      hexhi b13, hexlo b13, hexhi b14, hexlo b14, hexhi b15, hexlo b15]"
  by (simp add: uuid_String_def hex_EncodeToString_Cons hex_EncodeToString_Nil)

text \<open>\<^verbatim>\<open>uuid.Parse\<close> reads back what \<^verbatim>\<open>UUID.String\<close> writes.\<close>

lemma uuid_Parse_String:
  assumes "length u = 16"
  shows "uuid_Parse (uuid_String u) = Inr u"
proof -
  from assms obtain b0 b1 b2 b3 b4 b5 b6 b7 b8 b9 b10 b11 b12 b13 b14 b15
    where u: "u = [b0, b1, b2, b3, b4, b5, b6, b7, b8, b9, b10, b11, b12, b13, b14, b15]"
    by (rule length_16_list)
  show ?thesis
    unfolding u uuid_String_16
    by (simp add: uuid_Parse_def Let_def xtob_hex)
qed

lemma pg_uuid_pairs_numeral:
  "pg_uuid_pairs (numeral n) i (c1 # c2 # rest) =
     (if \<not> isxdigit c1 \<or> \<not> isxdigit c2 then None
      else
        (let rest' = (case rest of
                        d # r \<Rightarrow> if d = CHR ''-'' \<and> i mod 2 = 1 \<and> i < 15 then r else rest
                      | [] \<Rightarrow> rest)
         in case pg_uuid_pairs (pred_numeral n) (i + 1) rest' of
              None \<Rightarrow> None
            | Some (bs, left) \<Rightarrow> Some ((push_bit 4 (xvalues c1) OR xvalues c2) # bs, left)))"
  by (simp add: numeral_eq_Suc)

text \<open>The server's input function reads the canonical form too.\<close>

lemma pg_uuid_in_String:
  assumes "length u = 16"
  shows "pg_uuid_in (uuid_String u) = Some u"
proof -
  from assms obtain b0 b1 b2 b3 b4 b5 b6 b7 b8 b9 b10 b11 b12 b13 b14 b15
    where u: "u = [b0, b1, b2, b3, b4, b5, b6, b7, b8, b9, b10, b11, b12, b13, b14, b15]"
    by (rule length_16_list)
  show ?thesis
    unfolding u uuid_String_16
    by (simp add: pg_uuid_in_def Let_def pg_uuid_pairs_numeral isxdigit_hex hex_not_punct
        xvalues_hexhi xvalues_hexlo nibbles_join)
qed

lemma uuid_String_length: "length u = 16 \<Longrightarrow> length (uuid_String u) = 36"
  by (erule length_16_list) (simp add: uuid_String_16)

lemma demo_uuid_length: "length demo_uuid = 16"
  by (simp add: demo_uuid_def)

lemma demo_uuid_text: "uuid_String demo_uuid = ''550e8400-e29b-41d4-a716-446655440000''"
  by code_simp

lemma demo_uuid_parse: "uuid_Parse ''550e8400-e29b-41d4-a716-446655440000'' = Inr demo_uuid"
  using uuid_Parse_String [OF demo_uuid_length] by (simp add: demo_uuid_text)

section \<open>The signer's hash\<close>

text \<open>
  C9. For every input, the empty one included, \<^verbatim>\<open>ComputeHash\<close> returns 32 bytes and
  never an empty slice. So \<^verbatim>\<open>StoreBlob\<close> never takes the branch of an empty hash: no
  call returns that branch's error, and no call stops with the hash as its only step.
\<close>

theorem ComputeHash_32_bytes:
  "length (ComputeHash s blobContent) = 32 \<and> ComputeHash s blobContent \<noteq> [] \<and>
   (\<forall>l svc env tbl req.
      fst (StoreBlob l svc env tbl req) \<noteq> Inl (New ''failed to compute hash for blob content'') \<and>
      snd (snd (StoreBlob l svc env tbl req)) \<noteq> [DidComputeHash])"
proof -
  have len: "length (ComputeHash s' b) = 32" for s' b
    by (simp add: ComputeHash_def sha256_Sum256_length)
  have ne: "ComputeHash s' b \<noteq> []" for s' b
    using len [of s' b] by auto
  have unreachable:
    "fst (StoreBlob l svc env tbl req) \<noteq> Inl (New ''failed to compute hash for blob content'') \<and>
     snd (snd (StoreBlob l svc env tbl req)) \<noteq> [DidComputeHash]" for l svc env tbl req
    by (simp add: StoreBlob_def Let_def len ne split: option.split sum.split prod.split)
  show ?thesis using len ne unreachable by blast
qed

theorem ComputeHash_32_bytes_witness:
  "length (ComputeHash (Some demo_signer) []) = 32 \<and> ComputeHash (Some demo_signer) [] \<noteq> [] \<and>
   fst (StoreBlob demo_libs \<lparr>signer = Some demo_signer\<rparr> demo_env Map.empty
          (Some \<lparr>req_Blob = ''hello-world''\<rparr>))
     \<noteq> Inl (New ''failed to compute hash for blob content'')"
  using ComputeHash_32_bytes [of "Some demo_signer" "[]"] by blast

section \<open>The storage\<close>

text \<open>
  C1. \<^verbatim>\<open>Exists\<close> on a key that has no row: the table is empty, the statement succeeds,
  and the answer is \<^verbatim>\<open>true\<close>.
\<close>

theorem Exists_absent_reports_true:
  "Map.empty demo_uuid = (None :: row option) \<and> Exists None Map.empty demo_uuid = (True, None)"
  by (simp add: Exists_def pg_select_exists_def)

text \<open>The same holds of every table and key: the answer never depends on the row.\<close>

lemma Exists_never_false: "Exists None tbl uuid = (True, None)"
  by (simp add: Exists_def pg_select_exists_def)

text \<open>
  C7, as stated, fails: after a first delete that succeeds, the second delete of the same
  key does not have the outcome of the first. The first returns \<^verbatim>\<open>nil\<close>, the second
  \<^verbatim>\<open>ErrBlobNotFound\<close>.
\<close>

theorem Delete_twice_counterexample:
  "fst (Delete None
          [[0x55, 0x0e, 0x84, 0x00, 0xe2, 0x9b, 0x41, 0xd4, 0xa7, 0x16, 0x44, 0x66, 0x55, 0x44, 0x00, 0x00]
             \<mapsto> \<lparr>row_blob = ''hello-world'', row_hash = ''00'', row_timestamp = ''2025-07-30T16:52:13Z'',
                  row_signature = [1]\<rparr>]
          [0x55, 0x0e, 0x84, 0x00, 0xe2, 0x9b, 0x41, 0xd4, 0xa7, 0x16, 0x44, 0x66, 0x55, 0x44, 0x00, 0x00])
     = None \<and>
   fst (Delete None
          (snd (Delete None
                  [[0x55, 0x0e, 0x84, 0x00, 0xe2, 0x9b, 0x41, 0xd4, 0xa7, 0x16, 0x44, 0x66, 0x55, 0x44, 0x00, 0x00]
                     \<mapsto> \<lparr>row_blob = ''hello-world'', row_hash = ''00'',
                          row_timestamp = ''2025-07-30T16:52:13Z'', row_signature = [1]\<rparr>]
                  [0x55, 0x0e, 0x84, 0x00, 0xe2, 0x9b, 0x41, 0xd4, 0xa7, 0x16, 0x44, 0x66, 0x55, 0x44, 0x00, 0x00]))
          [0x55, 0x0e, 0x84, 0x00, 0xe2, 0x9b, 0x41, 0xd4, 0xa7, 0x16, 0x44, 0x66, 0x55, 0x44, 0x00, 0x00])
     = Some ErrBlobNotFound"
  by (simp add: Delete_def pg_delete_def)

text \<open>
  C7, amended. After a delete that succeeds the key has no row; a second delete of the
  same key leaves the table as the first left it, whatever the fault of its statement,
  and when its statement runs it reports \<^verbatim>\<open>ErrBlobNotFound\<close>. A delete of a key that has
  no row fails with \<^verbatim>\<open>ErrBlobNotFound\<close> and leaves the table unchanged.
\<close>

theorem Delete_second_time:
  "(Delete fault1 tbl uuid = (None, tbl') \<longrightarrow>
      tbl' uuid = None \<and>
      snd (Delete fault2 tbl' uuid) = tbl' \<and>
      Delete None tbl' uuid = (Some ErrBlobNotFound, tbl')) \<and>
   (tbl uuid = None \<longrightarrow> Delete None tbl uuid = (Some ErrBlobNotFound, tbl))"
proof -
  have absent: "t uuid = None \<Longrightarrow> Delete None t uuid = (Some ErrBlobNotFound, t)"
    for t :: signed_blobs
    by (simp add: Delete_def pg_delete_def fun_upd_idem)
  have state: "t uuid = None \<Longrightarrow> snd (Delete f t uuid) = t" for t :: signed_blobs and f
    by (cases f) (simp_all add: Delete_def pg_delete_def fun_upd_idem)
  have first: "Delete fault1 tbl uuid = (None, tbl') \<Longrightarrow> tbl' uuid = None"
    by (cases fault1) (auto simp: Delete_def pg_delete_def split: if_splits)
  show ?thesis using absent state first by blast
qed

theorem Delete_second_time_witness:
  "Delete None [demo_uuid \<mapsto> \<lparr>row_blob = ''hello-world'', row_hash = ''00'',
      row_timestamp = ''2025-07-30T16:52:13Z'', row_signature = [1]\<rparr>] demo_uuid = (None, Map.empty) \<and>
   Delete None Map.empty demo_uuid = (Some ErrBlobNotFound, Map.empty) \<and>
   snd (Delete (Some (Lib ''driver: bad connection'')) Map.empty demo_uuid) = Map.empty"
proof -
  have first: "Delete None [demo_uuid \<mapsto> \<lparr>row_blob = ''hello-world'', row_hash = ''00'',
      row_timestamp = ''2025-07-30T16:52:13Z'', row_signature = [1]\<rparr>] demo_uuid = (None, Map.empty)"
    by (simp add: Delete_def pg_delete_def)
  show ?thesis
    using first Delete_second_time [of None "[demo_uuid \<mapsto> \<lparr>row_blob = ''hello-world'', row_hash = ''00'',
      row_timestamp = ''2025-07-30T16:52:13Z'', row_signature = [1]\<rparr>]" demo_uuid Map.empty
      "Some (Lib ''driver: bad connection'')"]
    by simp
qed

text \<open>
  C8. \<^verbatim>\<open>Store\<close> of a record whose identifier has a row: the statement violates the
  primary key, and \<^verbatim>\<open>Store\<close> returns the driver's error as it is. That error is not
  \<^verbatim>\<open>ErrBlobExists\<close> and wraps nothing.
\<close>

theorem Store_collision_is_driver_error:
  "Store None
     [demo_uuid \<mapsto> \<lparr>row_blob = ''hello-world'', row_hash = ''00'',
        row_timestamp = ''2025-07-30T16:52:13Z'', row_signature = [1]\<rparr>]
     \<lparr>Payload = \<lparr>Uuid = uuid_String demo_uuid, Blob = ''again'', Hash = ''01'',
                  Timestamp = ''2025-07-30T16:52:14Z''\<rparr>, Signature = [2]\<rparr>
   = (Some pq_unique_violation,
      [demo_uuid \<mapsto> \<lparr>row_blob = ''hello-world'', row_hash = ''00'',
        row_timestamp = ''2025-07-30T16:52:13Z'', row_signature = [1]\<rparr>]) \<and>
   \<not> errors_Is pq_unique_violation ErrBlobExists \<and>
   uuid_String demo_uuid = ''550e8400-e29b-41d4-a716-446655440000''"
proof -
  have "pg_uuid_in (uuid_String demo_uuid) = Some demo_uuid"
    by (rule pg_uuid_in_String [OF demo_uuid_length])
  then show ?thesis
    by (simp add: Store_def pg_insert_def pq_unique_violation_def demo_uuid_text [symmetric])
qed

text \<open>No path of \<^verbatim>\<open>Store\<close> makes \<^verbatim>\<open>ErrBlobExists\<close>: it can only come in as the fault.\<close>

lemma Store_never_makes_ErrBlobExists:
  "fst (Store fault tbl record) = Some ErrBlobExists \<Longrightarrow> fault = Some ErrBlobExists"
  by (auto simp: Store_def pg_insert_def pq_unique_violation_def pq_invalid_uuid_def
      split: option.splits)

lemma Store_failure_atomic: "Store fault tbl record = (Some err, tbl') \<Longrightarrow> tbl' = tbl"
  by (auto simp: Store_def pg_insert_def split: option.splits)

lemma Store_success:
  assumes "Store fault tbl record = (None, tbl')"
  shows "\<exists>k. pg_uuid_in (Uuid (Payload record)) = Some k \<and> tbl k = None \<and>
             tbl' = tbl(k \<mapsto> \<lparr>row_blob = Blob (Payload record), row_hash = Hash (Payload record),
                                 row_timestamp = Timestamp (Payload record),
                                 row_signature = Signature record\<rparr>)"
  using assms by (auto simp: Store_def pg_insert_def split: option.splits)

section \<open>The signer\<close>

lemma Sign_success:
  assumes "Sign l s rand m = Inr sig"
  shows "\<exists>sv priv. s = Some sv \<and> privateKey sv = Some priv \<and> publicKey sv \<noteq> None \<and> m \<noteq> [] \<and>
                   rsa_SignPSS l rand priv (sha256_Sum256 m) = Inr sig"
  using assms
  by (auto simp: Sign_def rSASignerServiceCheckInit_def Let_def
      split: option.splits if_splits sum.splits)

lemma NewRSASignerServiceFromFile_keys:
  assumes "NewRSASignerServiceFromFile l fs pemFile = Inr sv"
  shows "\<exists>priv. privateKey sv = Some priv \<and> publicKey sv = Some (PublicKey priv)"
  using assms
  by (auto simp: NewRSASignerServiceFromFile_def split: sum.splits option.splits if_splits)

section \<open>The service\<close>

lemma StoreBlob_success:
  assumes "StoreBlob l s env tbl (Some rq) = (Inr resp, tbl', w)"
  shows "\<exists>m sig. req_Blob rq \<noteq> [] \<and> length (req_Blob rq) \<le> maxBlobSize \<and>
           proto_Marshal l (payloadToBeSigned (uuid_String (uuid_New env)) (req_Blob rq)
              (hex_EncodeToString (sha256_Sum256 (bytes_of_string (req_Blob rq)))) (time_Now env)) = Inr m \<and>
           Sign l (signer s) (rand_Reader env) m = Inr sig \<and>
           Store (store_fault env) tbl
             \<lparr>Payload = \<lparr>Uuid = uuid_String (uuid_New env), Blob = req_Blob rq,
                Hash = hex_EncodeToString (sha256_Sum256 (bytes_of_string (req_Blob rq))),
                Timestamp = time_Now env\<rparr>, Signature = sig\<rparr> = (None, tbl') \<and>
           resp = \<lparr>resp_Uuid = uuid_String (uuid_New env)\<rparr>"
  using assms
  by (auto simp: StoreBlob_def Let_def ComputeHash_def
      split: if_splits sum.splits option.splits prod.splits)

text \<open>
  C10. Every response that \<^verbatim>\<open>GetSignedBlob\<close> returns carries a signature that is not
  empty; and for a well-formed identifier whose row holds an empty signature, with the
  query succeeding, it returns the error \<^verbatim>\<open>signature is empty\<close>.
\<close>

theorem GetSignedBlob_signature_not_empty:
  "(GetSignedBlob fault tbl req = Inr resp \<longrightarrow> resp_Signature resp \<noteq> []) \<and>
   (req_Uuid rq \<noteq> [] \<and> uuid_Parse (req_Uuid rq) = Inr uuid \<and> tbl uuid = Some r \<and>
    row_signature r = [] \<longrightarrow>
      GetSignedBlob None tbl (Some rq) = Inl (New ''signature is empty''))"
  by (auto simp: GetSignedBlob_def GetByUUID_def pg_select_def Let_def
      split: option.splits sum.splits if_splits prod.splits)

theorem GetSignedBlob_signature_not_empty_witness:
  "GetSignedBlob None
     [demo_uuid \<mapsto> \<lparr>row_blob = ''hello-world'', row_hash = ''00'',
        row_timestamp = ''2025-07-30T16:52:13Z'', row_signature = []\<rparr>]
     (Some \<lparr>req_Uuid = ''550e8400-e29b-41d4-a716-446655440000''\<rparr>) = Inl (New ''signature is empty'') \<and>
   GetSignedBlob None
     [demo_uuid \<mapsto> \<lparr>row_blob = ''hello-world'', row_hash = ''00'',
        row_timestamp = ''2025-07-30T16:52:13Z'', row_signature = [1]\<rparr>]
     (Some \<lparr>req_Uuid = ''550e8400-e29b-41d4-a716-446655440000''\<rparr>)
     = Inr \<lparr>resp_Payload = \<lparr>Uuid = ''550e8400-e29b-41d4-a716-446655440000'', Blob = ''hello-world'',
                Hash = ''00'', Timestamp = ''2025-07-30T16:52:13Z''\<rparr>, resp_Signature = [1]\<rparr> \<and>
   resp_Signature \<lparr>resp_Payload = \<lparr>Uuid = ''550e8400-e29b-41d4-a716-446655440000'', Blob = ''hello-world'',
                Hash = ''00'', Timestamp = ''2025-07-30T16:52:13Z''\<rparr>, resp_Signature = [1]\<rparr> \<noteq> []"
proof -
  let ?rq = "\<lparr>req_Uuid = ''550e8400-e29b-41d4-a716-446655440000''\<rparr>"
  let ?r0 = "\<lparr>row_blob = ''hello-world'', row_hash = ''00'',
        row_timestamp = ''2025-07-30T16:52:13Z'', row_signature = []\<rparr>"
  let ?r1 = "\<lparr>row_blob = ''hello-world'', row_hash = ''00'',
        row_timestamp = ''2025-07-30T16:52:13Z'', row_signature = [1]\<rparr>"
  let ?resp = "\<lparr>resp_Payload = \<lparr>Uuid = ''550e8400-e29b-41d4-a716-446655440000'', Blob = ''hello-world'',
                Hash = ''00'', Timestamp = ''2025-07-30T16:52:13Z''\<rparr>, resp_Signature = [1]\<rparr>"
  have got: "GetSignedBlob None [demo_uuid \<mapsto> ?r1] (Some ?rq) = Inr ?resp"
    by (simp add: GetSignedBlob_def GetByUUID_def pg_select_def pg_uuid_out_def Let_def
        demo_uuid_parse demo_uuid_text)
  have empty: "GetSignedBlob None [demo_uuid \<mapsto> ?r0] (Some ?rq) = Inl (New ''signature is empty'')"
    using GetSignedBlob_signature_not_empty [of None "[demo_uuid \<mapsto> ?r0]" None ?resp ?rq demo_uuid ?r0]
    by (simp add: demo_uuid_parse)
  have nonempty: "resp_Signature ?resp \<noteq> []"
    using GetSignedBlob_signature_not_empty [of None "[demo_uuid \<mapsto> ?r1]" "Some ?rq" ?resp] got
    by blast
  show ?thesis using got empty nonempty by blast
qed

section \<open>Storing and retrieving\<close>

lemma sha256_Sum256_nonempty: "sha256_Sum256 d \<noteq> []"
  using sha256_Sum256_length [of d] by auto

lemma demo_uuid_pg: "pg_uuid_in ''550e8400-e29b-41d4-a716-446655440000'' = Some demo_uuid"
  using pg_uuid_in_String [OF demo_uuid_length] by (simp add: demo_uuid_text)

lemma bytes_of_string_length: "length (bytes_of_string s) = length s"
  by (simp add: bytes_of_string_def)

lemma pss_sound_demo: "pss_sound demo_libs"
  by (simp add: pss_sound_def demo_libs_def)

lemma hex_digit_mem: "hexhi v \<in> set hextable" "hexlo v \<in> set hextable"
proof -
  have len: "length hextable = 16" by (simp add: hextable_def)
  show "hexhi v \<in> set hextable"
    unfolding hexhi_def using hi_nibble_less [of v] len by (metis nth_mem)
  show "hexlo v \<in> set hextable"
    unfolding hexlo_def using lo_nibble_less [of v] len by (metis nth_mem)
qed

lemma hex_EncodeToString_lowercase: "set (hex_EncodeToString src) \<subseteq> set ''0123456789abcdef''"
proof (induction src)
  case Nil
  show ?case by (simp add: hex_EncodeToString_Nil)
next
  case (Cons v vs)
  have "hexhi v \<in> set ''0123456789abcdef''" "hexlo v \<in> set ''0123456789abcdef''"
    using hex_digit_mem [of v] by (simp_all only: hextable_def)
  with Cons show ?case by (simp only: hex_EncodeToString_Cons set_simps insert_subset)
qed

text \<open>
  What \<^verbatim>\<open>GetSignedBlob\<close> returns for the identifier of a successful \<^verbatim>\<open>StoreBlob\<close>:
  the payload that was signed and the signature that was made, which \<^verbatim>\<open>rsa.VerifyPSS\<close>
  accepts for the digest of the encoded payload.
\<close>

lemma stored_record_retrieved:
  assumes uuid: "length (uuid_New env) = 16"
      and keys: "NewRSASignerServiceFromFile l fs pemFile = Inr sv"
      and pss: "pss_sound l"
      and stored: "StoreBlob l \<lparr>signer = Some sv\<rparr> env tbl (Some \<lparr>req_Blob = C\<rparr>) = (Inr resp, tbl', w)"
  shows "\<exists>m sig priv.
           GetSignedBlob None tbl' (Some \<lparr>req_Uuid = resp_Uuid resp\<rparr>) =
             Inr \<lparr>resp_Payload =
                    payloadToBeSigned (uuid_String (uuid_New env)) C
                      (hex_EncodeToString (sha256_Sum256 (bytes_of_string C))) (time_Now env),
                  resp_Signature = sig\<rparr> \<and>
           proto_Marshal l
             (payloadToBeSigned (uuid_String (uuid_New env)) C
                (hex_EncodeToString (sha256_Sum256 (bytes_of_string C))) (time_Now env)) = Inr m \<and>
           m \<noteq> [] \<and> sig \<noteq> [] \<and>
           privateKey sv = Some priv \<and> publicKey sv = Some (PublicKey priv) \<and>
           rsa_VerifyPSS l (PublicKey priv) (sha256_Sum256 m) sig = None"
proof -
  let ?u = "uuid_New env"
  let ?h = "hex_EncodeToString (sha256_Sum256 (bytes_of_string C))"
  let ?p = "\<lparr>Uuid = uuid_String ?u, Blob = C, Hash = ?h, Timestamp = time_Now env\<rparr>"
  from StoreBlob_success [OF stored] obtain m sig where
      m: "proto_Marshal l (payloadToBeSigned (uuid_String ?u) C ?h (time_Now env)) = Inr m"
    and sig: "Sign l (Some sv) (rand_Reader env) m = Inr sig"
    and st: "Store (store_fault env) tbl \<lparr>Payload = ?p, Signature = sig\<rparr> = (None, tbl')"
    and resp: "resp = \<lparr>resp_Uuid = uuid_String ?u\<rparr>"
    by auto
  from Sign_success [OF sig] obtain priv where
      priv: "privateKey sv = Some priv" and mne: "m \<noteq> []"
    and signed: "rsa_SignPSS l (rand_Reader env) priv (sha256_Sum256 m) = Inr sig"
    by auto
  from NewRSASignerServiceFromFile_keys [OF keys] priv
  have pub: "publicKey sv = Some (PublicKey priv)" by auto
  from pss signed have signe: "sig \<noteq> []"
    and ok: "rsa_VerifyPSS l (PublicKey priv) (sha256_Sum256 m) sig = None"
    unfolding pss_sound_def by blast+
  from Store_success [OF st] pg_uuid_in_String [OF uuid]
  have tbl': "tbl' = tbl(?u \<mapsto> \<lparr>row_blob = C, row_hash = ?h, row_timestamp = time_Now env,
                                 row_signature = sig\<rparr>)"
    by auto
  have text_ne: "uuid_String ?u \<noteq> []"
    using uuid_String_length [OF uuid] by auto
  have get: "GetSignedBlob None tbl' (Some \<lparr>req_Uuid = resp_Uuid resp\<rparr>) =
               Inr \<lparr>resp_Payload = payloadToBeSigned (uuid_String ?u) C ?h (time_Now env),
                    resp_Signature = sig\<rparr>"
    by (simp add: resp GetSignedBlob_def GetByUUID_def pg_select_def pg_uuid_out_def Let_def
        text_ne uuid_Parse_String [OF uuid] tbl' signe payloadToBeSigned_def)
  show ?thesis
    using get m mne signe priv pub ok by blast
qed

text \<open>
  C3. Let the content \<open>C\<close> have between 1 and 262144 bytes, and let \<^verbatim>\<open>StoreBlob\<close> have
  stored it and returned an identifier. Then \<^verbatim>\<open>GetSignedBlob\<close> of that identifier, its
  query succeeding, returns a record whose content is \<open>C\<close>, whose hash is the lower-case
  hexadecimal SHA-256 of \<open>C\<close>, and whose signature \<^verbatim>\<open>VerifySignature\<close> accepts under
  the service's public key for the encoding of the returned record. The signer is the one
  its constructor builds from a key file, \<^verbatim>\<open>uuid.New()\<close> has given 16 bytes, and
  \<^verbatim>\<open>crypto/rsa\<close> verifies what it signs.
\<close>

theorem store_then_get_round_trip:
  assumes size: "1 \<le> length C" "length C \<le> 262144"
      and uuid: "length (uuid_New env) = 16"
      and keys: "NewRSASignerServiceFromFile l fs pemFile = Inr sv"
      and pss: "pss_sound l"
      and stored: "StoreBlob l \<lparr>signer = Some sv\<rparr> env tbl (Some \<lparr>req_Blob = C\<rparr>) = (Inr resp, tbl', w)"
  shows "\<exists>r m. GetSignedBlob None tbl' (Some \<lparr>req_Uuid = resp_Uuid resp\<rparr>) = Inr r \<and>
               Blob (resp_Payload r) = C \<and>
               Hash (resp_Payload r) = hex_EncodeToString (sha256_Sum256 (bytes_of_string C)) \<and>
               set (Hash (resp_Payload r)) \<subseteq> set ''0123456789abcdef'' \<and>
               proto_Marshal l (resp_Payload r) = Inr m \<and>
               VerifySignature l (Some sv) m (resp_Signature r) = None"
proof -
  let ?h = "hex_EncodeToString (sha256_Sum256 (bytes_of_string C))"
  let ?p = "payloadToBeSigned (uuid_String (uuid_New env)) C ?h (time_Now env)"
  from stored_record_retrieved [OF uuid keys pss stored] obtain m sig priv where
      get: "GetSignedBlob None tbl' (Some \<lparr>req_Uuid = resp_Uuid resp\<rparr>) =
              Inr \<lparr>resp_Payload = ?p, resp_Signature = sig\<rparr>"
    and m: "proto_Marshal l ?p = Inr m"
    and ne: "m \<noteq> []" "sig \<noteq> []"
    and keypair: "privateKey sv = Some priv" "publicKey sv = Some (PublicKey priv)"
    and ok: "rsa_VerifyPSS l (PublicKey priv) (sha256_Sum256 m) sig = None"
    by blast
  have fields: "Blob ?p = C" "Hash ?p = ?h"
    by (simp_all add: payloadToBeSigned_def)
  have ver: "VerifySignature l (Some sv) m sig = None"
    by (simp add: VerifySignature_def rSASignerServiceCheckInit_def Let_def keypair ne ok)
  have lower: "set ?h \<subseteq> set ''0123456789abcdef''"
    by (rule hex_EncodeToString_lowercase)
  show ?thesis
    using get m ver lower fields by simp
qed

lemma demo_signer_built:
  "NewRSASignerServiceFromFile demo_libs demo_os ''private_key.pem'' = Inr demo_signer"
  by (simp add: NewRSASignerServiceFromFile_def demo_libs_def demo_os_def demo_signer_def)

lemma demo_store_succeeds:
  "fst (StoreBlob demo_libs \<lparr>signer = Some demo_signer\<rparr> demo_env Map.empty
          (Some \<lparr>req_Blob = ''hello-world''\<rparr>))
     = Inr \<lparr>resp_Uuid = ''550e8400-e29b-41d4-a716-446655440000''\<rparr>"
  by (simp add: StoreBlob_def Let_def ComputeHash_def sha256_Sum256_nonempty maxBlobSize_def
      demo_libs_def demo_Marshal_def Sign_def rSASignerServiceCheckInit_def demo_signer_def
      demo_env_def Store_def pg_insert_def demo_uuid_pg demo_uuid_text payloadToBeSigned_def)

theorem store_then_get_round_trip_witness:
  "\<exists>r m. GetSignedBlob None
            (fst (snd (StoreBlob demo_libs \<lparr>signer = Some demo_signer\<rparr> demo_env Map.empty
                         (Some \<lparr>req_Blob = ''hello-world''\<rparr>))))
            (Some \<lparr>req_Uuid = ''550e8400-e29b-41d4-a716-446655440000''\<rparr>) = Inr r \<and>
         Blob (resp_Payload r) = ''hello-world'' \<and>
         Hash (resp_Payload r) = hex_EncodeToString (sha256_Sum256 (bytes_of_string ''hello-world'')) \<and>
         proto_Marshal demo_libs (resp_Payload r) = Inr m \<and>
         VerifySignature demo_libs (Some demo_signer) m (resp_Signature r) = None"
proof -
  let ?X = "StoreBlob demo_libs \<lparr>signer = Some demo_signer\<rparr> demo_env Map.empty
              (Some \<lparr>req_Blob = ''hello-world''\<rparr>)"
  let ?resp = "\<lparr>resp_Uuid = ''550e8400-e29b-41d4-a716-446655440000''\<rparr>"
  have stored: "?X = (Inr ?resp, fst (snd ?X), snd (snd ?X))"
    using demo_store_succeeds by (metis prod.collapse)
  have size: "1 \<le> length ''hello-world''" "length ''hello-world'' \<le> 262144"
    by simp_all
  have uuid: "length (uuid_New demo_env) = 16"
    by (simp add: demo_env_def demo_uuid_length)
  from store_then_get_round_trip [OF size uuid demo_signer_built pss_sound_demo stored]
  show ?thesis by auto
qed

section \<open>Failures and limits of \<^verbatim>\<open>StoreBlob\<close>\<close>

text \<open>
  C4. On a request that passes validation and whose payload is encoded: when the sign
  step fails, \<^verbatim>\<open>StoreBlob\<close> returns the error, the table is the one it was given, and
  the store step is not among the steps done; when the sign step succeeds and the store
  step fails, the caller gets an error (no identifier) and the table is unchanged. In
  every call, a table that differs from the one given has gone through the store step.
\<close>

theorem StoreBlob_failure_paths:
  "(req_Blob rq \<noteq> [] \<and> length (req_Blob rq) \<le> maxBlobSize \<and>
    proto_Marshal l (payloadToBeSigned (uuid_String (uuid_New env)) (req_Blob rq)
       (hex_EncodeToString (sha256_Sum256 (bytes_of_string (req_Blob rq)))) (time_Now env)) = Inr m \<and>
    Sign l (signer s) (rand_Reader env) m = Inl err \<longrightarrow>
      StoreBlob l s env tbl (Some rq) =
        (Inl (Wrap ''failed to sign payload'' err), tbl,
         [DidComputeHash, DidNewUuid, DidMarshal, DidSign])) \<and>
   (req_Blob rq \<noteq> [] \<and> length (req_Blob rq) \<le> maxBlobSize \<and>
    proto_Marshal l (payloadToBeSigned (uuid_String (uuid_New env)) (req_Blob rq)
       (hex_EncodeToString (sha256_Sum256 (bytes_of_string (req_Blob rq)))) (time_Now env)) = Inr m \<and>
    Sign l (signer s) (rand_Reader env) m = Inr sig \<and>
    Store (store_fault env) tbl
      \<lparr>Payload = \<lparr>Uuid = uuid_String (uuid_New env), Blob = req_Blob rq,
         Hash = hex_EncodeToString (sha256_Sum256 (bytes_of_string (req_Blob rq))),
         Timestamp = time_Now env\<rparr>, Signature = sig\<rparr> = (Some err, tbl') \<longrightarrow>
      tbl' = tbl \<and>
      StoreBlob l s env tbl (Some rq) =
        (Inl (Wrap ''failed to store signed record'' err), tbl,
         [DidComputeHash, DidNewUuid, DidMarshal, DidSign, DidStore])) \<and>
   (DidStore \<notin> set (snd (snd (StoreBlob l s env tbl req))) \<longrightarrow>
      fst (snd (StoreBlob l s env tbl req)) = tbl)"
proof -
  have a: "StoreBlob l s env tbl (Some rq) =
        (Inl (Wrap ''failed to sign payload'' err), tbl,
         [DidComputeHash, DidNewUuid, DidMarshal, DidSign])"
    if "req_Blob rq \<noteq> []" "length (req_Blob rq) \<le> maxBlobSize"
      "proto_Marshal l (payloadToBeSigned (uuid_String (uuid_New env)) (req_Blob rq)
       (hex_EncodeToString (sha256_Sum256 (bytes_of_string (req_Blob rq)))) (time_Now env)) = Inr m"
      "Sign l (signer s) (rand_Reader env) m = Inl err"
    using that by (simp add: StoreBlob_def Let_def ComputeHash_def sha256_Sum256_nonempty)
  have b: "tbl' = tbl \<and> StoreBlob l s env tbl (Some rq) =
        (Inl (Wrap ''failed to store signed record'' err), tbl,
         [DidComputeHash, DidNewUuid, DidMarshal, DidSign, DidStore])"
    if "req_Blob rq \<noteq> []" "length (req_Blob rq) \<le> maxBlobSize"
      "proto_Marshal l (payloadToBeSigned (uuid_String (uuid_New env)) (req_Blob rq)
       (hex_EncodeToString (sha256_Sum256 (bytes_of_string (req_Blob rq)))) (time_Now env)) = Inr m"
      "Sign l (signer s) (rand_Reader env) m = Inr sig"
      "Store (store_fault env) tbl
      \<lparr>Payload = \<lparr>Uuid = uuid_String (uuid_New env), Blob = req_Blob rq,
         Hash = hex_EncodeToString (sha256_Sum256 (bytes_of_string (req_Blob rq))),
         Timestamp = time_Now env\<rparr>, Signature = sig\<rparr> = (Some err, tbl')"
    using that Store_failure_atomic [OF that(5)]
    by (simp add: StoreBlob_def Let_def ComputeHash_def sha256_Sum256_nonempty)
  have c: "fst (snd (StoreBlob l s env tbl req)) = tbl"
    if "DidStore \<notin> set (snd (snd (StoreBlob l s env tbl req)))"
    using that
    by (auto simp: StoreBlob_def Let_def split: option.splits if_splits sum.splits prod.splits)
  show ?thesis using a b c by blast
qed

text \<open>
  C6. Content of exactly 262144 bytes passes validation (neither validation error is
  returned and hashing is done), and is stored under its identifier when encoding,
  signing and the insert succeed. Content of 262145 bytes or more is rejected with the
  validation error before any other step, and the table is unchanged: whatever the
  libraries, the signer and the environment are.
\<close>

theorem StoreBlob_size_boundary:
  "(length (req_Blob rq) = 262144 \<longrightarrow>
      fst (StoreBlob l s env tbl (Some rq)) \<noteq> Inl (New ''blob content cannot be empty'') \<and>
      fst (StoreBlob l s env tbl (Some rq)) \<noteq>
        Inl (New ''blob content exceeds maximum size of 262144 bytes'') \<and>
      DidComputeHash \<in> set (snd (snd (StoreBlob l s env tbl (Some rq))))) \<and>
   (length (req_Blob rq) = 262144 \<and>
    proto_Marshal l (payloadToBeSigned (uuid_String (uuid_New env)) (req_Blob rq)
       (hex_EncodeToString (sha256_Sum256 (bytes_of_string (req_Blob rq)))) (time_Now env)) = Inr m \<and>
    Sign l (signer s) (rand_Reader env) m = Inr sig \<and>
    Store (store_fault env) tbl
      \<lparr>Payload = \<lparr>Uuid = uuid_String (uuid_New env), Blob = req_Blob rq,
         Hash = hex_EncodeToString (sha256_Sum256 (bytes_of_string (req_Blob rq))),
         Timestamp = time_Now env\<rparr>, Signature = sig\<rparr> = (None, tbl') \<longrightarrow>
      StoreBlob l s env tbl (Some rq) =
        (Inr \<lparr>resp_Uuid = uuid_String (uuid_New env)\<rparr>, tbl',
         [DidComputeHash, DidNewUuid, DidMarshal, DidSign, DidStore])) \<and>
   (262145 \<le> length (req_Blob rq) \<longrightarrow>
      StoreBlob l s env tbl (Some rq) =
        (Inl (New ''blob content exceeds maximum size of 262144 bytes''), tbl, []))"
proof -
  have a: "fst (StoreBlob l s env tbl (Some rq)) \<noteq> Inl (New ''blob content cannot be empty'') \<and>
      fst (StoreBlob l s env tbl (Some rq)) \<noteq>
        Inl (New ''blob content exceeds maximum size of 262144 bytes'') \<and>
      DidComputeHash \<in> set (snd (snd (StoreBlob l s env tbl (Some rq))))"
    if "length (req_Blob rq) = 262144"
  proof -
    from that have "req_Blob rq \<noteq> []" "\<not> length (req_Blob rq) > maxBlobSize"
      by (auto simp: maxBlobSize_def)
    then show ?thesis
      by (simp add: StoreBlob_def Let_def ComputeHash_def sha256_Sum256_nonempty
          split: sum.split prod.split option.split)
  qed
  have b: "StoreBlob l s env tbl (Some rq) =
        (Inr \<lparr>resp_Uuid = uuid_String (uuid_New env)\<rparr>, tbl',
         [DidComputeHash, DidNewUuid, DidMarshal, DidSign, DidStore])"
    if "length (req_Blob rq) = 262144"
      "proto_Marshal l (payloadToBeSigned (uuid_String (uuid_New env)) (req_Blob rq)
       (hex_EncodeToString (sha256_Sum256 (bytes_of_string (req_Blob rq)))) (time_Now env)) = Inr m"
      "Sign l (signer s) (rand_Reader env) m = Inr sig"
      "Store (store_fault env) tbl
      \<lparr>Payload = \<lparr>Uuid = uuid_String (uuid_New env), Blob = req_Blob rq,
         Hash = hex_EncodeToString (sha256_Sum256 (bytes_of_string (req_Blob rq))),
         Timestamp = time_Now env\<rparr>, Signature = sig\<rparr> = (None, tbl')"
  proof -
    from that(1) have "req_Blob rq \<noteq> []" "\<not> length (req_Blob rq) > maxBlobSize"
      by (auto simp: maxBlobSize_def)
    with that(2-4) show ?thesis
      by (simp add: StoreBlob_def Let_def ComputeHash_def sha256_Sum256_nonempty)
  qed
  have c: "StoreBlob l s env tbl (Some rq) =
        (Inl (New ''blob content exceeds maximum size of 262144 bytes''), tbl, [])"
    if "262145 \<le> length (req_Blob rq)"
  proof -
    from that have "req_Blob rq \<noteq> []" "length (req_Blob rq) > maxBlobSize"
      by (auto simp: maxBlobSize_def)
    then show ?thesis by (simp add: StoreBlob_def)
  qed
  show ?thesis using a b c by blast
qed


theorem StoreBlob_failure_paths_witness:
  "StoreBlob demo_libs \<lparr>signer = None\<rparr> demo_env Map.empty (Some \<lparr>req_Blob = ''hello-world''\<rparr>) =
     (Inl (Wrap ''failed to sign payload''
            (Wrap ''failed to sign content''
              (New ''RSASignerService has not been initialised properly''))),
      Map.empty, [DidComputeHash, DidNewUuid, DidMarshal, DidSign]) \<and>
   StoreBlob demo_libs \<lparr>signer = Some demo_signer\<rparr>
       (demo_env\<lparr>store_fault := Some (Lib ''driver: bad connection'')\<rparr>) Map.empty
       (Some \<lparr>req_Blob = ''hello-world''\<rparr>) =
     (Inl (Wrap ''failed to store signed record'' (Lib ''driver: bad connection'')),
      Map.empty, [DidComputeHash, DidNewUuid, DidMarshal, DidSign, DidStore])"
proof -
  let ?rq = "\<lparr>req_Blob = ''hello-world''\<rparr>"
  let ?env = "demo_env\<lparr>store_fault := Some (Lib ''driver: bad connection'')\<rparr>"
  let ?h = "hex_EncodeToString (sha256_Sum256 (bytes_of_string (req_Blob ?rq)))"
  let ?p = "payloadToBeSigned (uuid_String (uuid_New demo_env)) (req_Blob ?rq) ?h (time_Now demo_env)"
  let ?m = "projr (proto_Marshal demo_libs ?p)"
  let ?sig = "projr (Sign demo_libs (Some demo_signer) (rand_Reader demo_env) ?m)"
  let ?err = "Wrap ''failed to sign content''
                (New ''RSASignerService has not been initialised properly'')"
  have valid: "req_Blob ?rq \<noteq> []" "length (req_Blob ?rq) \<le> maxBlobSize"
    by (simp_all add: maxBlobSize_def)
  have m: "proto_Marshal demo_libs ?p = Inr ?m"
    by (simp add: demo_libs_def demo_Marshal_def)
  have same: "uuid_New ?env = uuid_New demo_env" "time_Now ?env = time_Now demo_env"
    "rand_Reader ?env = rand_Reader demo_env" "store_fault ?env = Some (Lib ''driver: bad connection'')"
    by simp_all
  have nosign: "Sign demo_libs (signer \<lparr>signer = None\<rparr>) (rand_Reader demo_env) ?m = Inl ?err"
    by (simp add: Sign_def rSASignerServiceCheckInit_def)
  have sign: "Sign demo_libs (signer \<lparr>signer = Some demo_signer\<rparr>) (rand_Reader ?env) ?m = Inr ?sig"
    by (simp add: Sign_def rSASignerServiceCheckInit_def demo_signer_def demo_libs_def
        demo_Marshal_def Let_def)
  have nostore: "Store (store_fault ?env) Map.empty
      \<lparr>Payload = \<lparr>Uuid = uuid_String (uuid_New ?env), Blob = req_Blob ?rq,
         Hash = ?h, Timestamp = time_Now ?env\<rparr>, Signature = ?sig\<rparr>
      = (Some (Lib ''driver: bad connection''), Map.empty)"
    by (simp add: Store_def pg_insert_def)
  have first: "StoreBlob demo_libs \<lparr>signer = None\<rparr> demo_env Map.empty (Some ?rq) =
     (Inl (Wrap ''failed to sign payload'' ?err), Map.empty,
      [DidComputeHash, DidNewUuid, DidMarshal, DidSign])"
    using StoreBlob_failure_paths [where rq = ?rq and l = demo_libs and env = demo_env
        and m = ?m and s = "\<lparr>signer = None\<rparr>" and err = ?err and tbl = Map.empty]
      valid m nosign
    by blast
  have second: "StoreBlob demo_libs \<lparr>signer = Some demo_signer\<rparr> ?env Map.empty (Some ?rq) =
     (Inl (Wrap ''failed to store signed record'' (Lib ''driver: bad connection'')),
      Map.empty, [DidComputeHash, DidNewUuid, DidMarshal, DidSign, DidStore])"
    using StoreBlob_failure_paths [where rq = ?rq and l = demo_libs and env = ?env
        and m = ?m and s = "\<lparr>signer = Some demo_signer\<rparr>" and sig = ?sig
        and err = "Lib ''driver: bad connection''" and tbl = Map.empty and tbl' = Map.empty]
      valid m sign nostore
    unfolding same by blast
  show ?thesis using first second by simp
qed

theorem StoreBlob_size_boundary_witness:
  "fst (StoreBlob demo_libs \<lparr>signer = Some demo_signer\<rparr> demo_env Map.empty
          (Some \<lparr>req_Blob = replicate 262144 (CHR ''A'')\<rparr>))
     = Inr \<lparr>resp_Uuid = ''550e8400-e29b-41d4-a716-446655440000''\<rparr> \<and>
   StoreBlob demo_libs \<lparr>signer = Some demo_signer\<rparr> demo_env Map.empty
       (Some \<lparr>req_Blob = replicate 262145 (CHR ''A'')\<rparr>)
     = (Inl (New ''blob content exceeds maximum size of 262144 bytes''), Map.empty, [])"
proof -
  let ?rq = "\<lparr>req_Blob = replicate 262144 (CHR ''A'')\<rparr>"
  let ?big = "\<lparr>req_Blob = replicate 262145 (CHR ''A'')\<rparr>"
  let ?s = "\<lparr>signer = Some demo_signer\<rparr>"
  let ?h = "hex_EncodeToString (sha256_Sum256 (bytes_of_string (req_Blob ?rq)))"
  let ?p = "payloadToBeSigned (uuid_String (uuid_New demo_env)) (req_Blob ?rq) ?h (time_Now demo_env)"
  let ?m = "projr (proto_Marshal demo_libs ?p)"
  let ?sig = "projr (Sign demo_libs (Some demo_signer) (rand_Reader demo_env) ?m)"
  let ?rec = "\<lparr>Payload = \<lparr>Uuid = uuid_String (uuid_New demo_env), Blob = req_Blob ?rq,
         Hash = ?h, Timestamp = time_Now demo_env\<rparr>, Signature = ?sig\<rparr>"
  let ?tbl' = "snd (Store (store_fault demo_env) Map.empty ?rec)"
  have len: "length (req_Blob ?rq) = 262144" by simp
  have m: "proto_Marshal demo_libs ?p = Inr ?m"
    by (simp add: demo_libs_def demo_Marshal_def)
  have sign: "Sign demo_libs (signer ?s) (rand_Reader demo_env) ?m = Inr ?sig"
    by (simp add: Sign_def rSASignerServiceCheckInit_def demo_signer_def demo_libs_def
        demo_Marshal_def Let_def)
  have "fst (Store (store_fault demo_env) Map.empty ?rec) = None"
    by (simp add: Store_def pg_insert_def demo_env_def demo_uuid_pg demo_uuid_text)
  then have store: "Store (store_fault demo_env) Map.empty ?rec = (None, ?tbl')"
    by (metis prod.collapse)
  have ok: "StoreBlob demo_libs ?s demo_env Map.empty (Some ?rq) =
        (Inr \<lparr>resp_Uuid = uuid_String (uuid_New demo_env)\<rparr>, ?tbl',
         [DidComputeHash, DidNewUuid, DidMarshal, DidSign, DidStore])"
    using StoreBlob_size_boundary [where rq = ?rq and l = demo_libs and env = demo_env
        and m = ?m and s = ?s and sig = ?sig and tbl = Map.empty and tbl' = ?tbl']
      len m sign store
    by blast
  have biglen: "262145 \<le> length (req_Blob ?big)" by simp
  have rejected: "StoreBlob demo_libs ?s demo_env Map.empty (Some ?big) =
       (Inl (New ''blob content exceeds maximum size of 262144 bytes''), Map.empty, [])"
    using StoreBlob_size_boundary [where rq = ?big and l = demo_libs and env = demo_env
        and s = ?s and tbl = Map.empty] biglen
    by blast
  show ?thesis
    using ok rejected by (simp add: demo_env_def demo_uuid_text)
qed

section \<open>The offline verifier\<close>

text \<open>
  C5. The checks of the verifier start with the SHA-256 of the local content, compared
  in hexadecimal with the hash of the metadata. On a mismatch the run returns the
  mismatch error with that hash as its only step; any further step (the public key, the
  digest of the payload, \<^verbatim>\<open>rsa.VerifyPSS\<close>) means that the hashes agreed. The checks
  report success exactly when the hashes agree and the signature check passes: the
  payload is encoded, the key file holds a PEM block \<^verbatim>\<open>PUBLIC KEY\<close> with an RSA key,
  and \<^verbatim>\<open>rsa.VerifyPSS\<close> accepts the signature for the digest of the payload. The
  command reports success exactly when the artefacts load and the checks succeed.
\<close>

theorem verify_hash_then_signature:
  "(hex_EncodeToString (sha256_Sum256 blobBytes) \<noteq> meta_Hash meta \<longrightarrow>
      verifyCommand_check l fs publicKeyPath meta blobBytes sig =
        (Returned (Some (New (''hash mismatch! Expected: '' @ meta_Hash meta @ '', Computed: '' @
                               hex_EncodeToString (sha256_Sum256 blobBytes)))),
         [DidHashContent])) \<and>
   (snd (verifyCommand_check l fs publicKeyPath meta blobBytes sig) \<noteq> [DidHashContent] \<longrightarrow>
      hex_EncodeToString (sha256_Sum256 blobBytes) = meta_Hash meta) \<and>
   (fst (verifyCommand_check l fs publicKeyPath meta blobBytes sig) = Returned None \<longleftrightarrow>
      hex_EncodeToString (sha256_Sum256 blobBytes) = meta_Hash meta \<and>
      (\<exists>payloadBytes pubBytes block rsaPubKey.
          proto_Marshal l (verifyCommand_payload meta blobBytes) = Inr payloadBytes \<and>
          os_ReadFile fs publicKeyPath = Inr pubBytes \<and>
          pem_Decode l pubBytes = Some block \<and> pem_Type block = ''PUBLIC KEY'' \<and>
          x509_ParsePKIXPublicKey l (pem_Bytes block) = Inr (RSA_PublicKey rsaPubKey) \<and>
          rsa_VerifyPSS l rsaPubKey (sha256_Sum256 payloadBytes) sig = None)) \<and>
   (fst (verifyCommand l fs verifyDir publicKeyPath args) = Returned None \<longleftrightarrow>
      (\<exists>meta' blobBytes' sig'.
          verifyCommand_load l fs verifyDir args = Inr (meta', blobBytes', sig') \<and>
          fst (verifyCommand_check l fs publicKeyPath meta' blobBytes' sig') = Returned None))"
proof -
  let ?ok = "hex_EncodeToString (sha256_Sum256 blobBytes) = meta_Hash meta"
  have mismatch: "\<not> ?ok \<Longrightarrow>
      verifyCommand_check l fs publicKeyPath meta blobBytes sig =
        (Returned (Some (New (''hash mismatch! Expected: '' @ meta_Hash meta @ '', Computed: '' @
                               hex_EncodeToString (sha256_Sum256 blobBytes)))),
         [DidHashContent])"
    by (simp add: verifyCommand_check_def Let_def)
  have later: "snd (verifyCommand_check l fs publicKeyPath meta blobBytes sig) \<noteq> [DidHashContent]
      \<Longrightarrow> ?ok"
    using mismatch by fastforce
  have verdict: "fst (verifyCommand_check l fs publicKeyPath meta blobBytes sig) = Returned None \<longleftrightarrow>
      ?ok \<and>
      (\<exists>payloadBytes pubBytes block rsaPubKey.
          proto_Marshal l (verifyCommand_payload meta blobBytes) = Inr payloadBytes \<and>
          os_ReadFile fs publicKeyPath = Inr pubBytes \<and>
          pem_Decode l pubBytes = Some block \<and> pem_Type block = ''PUBLIC KEY'' \<and>
          x509_ParsePKIXPublicKey l (pem_Bytes block) = Inr (RSA_PublicKey rsaPubKey) \<and>
          rsa_VerifyPSS l rsaPubKey (sha256_Sum256 payloadBytes) sig = None)"
    by (auto simp: verifyCommand_check_def Let_def
        split: sum.splits option.splits public_key.splits if_splits)
  have whole: "fst (verifyCommand l fs verifyDir publicKeyPath args) = Returned None \<longleftrightarrow>
      (\<exists>meta' blobBytes' sig'.
          verifyCommand_load l fs verifyDir args = Inr (meta', blobBytes', sig') \<and>
          fst (verifyCommand_check l fs publicKeyPath meta' blobBytes' sig') = Returned None)"
    by (auto simp: verifyCommand_def split: sum.splits prod.splits)
  show ?thesis
    using mismatch later verdict whole by blast
qed


lemma hex_sha256_length: "length (hex_EncodeToString (sha256_Sum256 d)) = 64"
  by (simp add: hex_EncodeToString_length sha256_Sum256_length)

theorem verify_hash_then_signature_witness:
  "verifyCommand_check demo_libs demo_os ''./public.pem''
     \<lparr>meta_UUID = ''550e8400-e29b-41d4-a716-446655440000'',
      meta_Hash = hex_EncodeToString (sha256_Sum256 (bytes_of_string ''hello-world'')),
      meta_TimeStamp = ''2025-07-30T16:52:13Z''\<rparr>
     (bytes_of_string ''hello-world'')
     (of_nat 3233 # sha256_Sum256 (projr (demo_Marshal
        \<lparr>Uuid = ''550e8400-e29b-41d4-a716-446655440000'',
         Blob = string_of_bytes (bytes_of_string ''hello-world''),
         Hash = hex_EncodeToString (sha256_Sum256 (bytes_of_string ''hello-world'')),
         Timestamp = ''2025-07-30T16:52:13Z''\<rparr>)))
     = (Returned None,
        [DidHashContent, DidMarshalPayload, DidReadPublicKey, DidDecodePEM, DidParsePublicKey,
         DidHashPayload, DidVerifyPSS]) \<and>
   verifyCommand_check demo_libs demo_os ''./public.pem''
     \<lparr>meta_UUID = ''550e8400-e29b-41d4-a716-446655440000'', meta_Hash = ''00'',
      meta_TimeStamp = ''2025-07-30T16:52:13Z''\<rparr>
     (bytes_of_string ''hello-world'') [1]
     = (Returned (Some (New (''hash mismatch! Expected: '' @ ''00'' @ '', Computed: '' @
                             hex_EncodeToString (sha256_Sum256 (bytes_of_string ''hello-world''))))),
        [DidHashContent])"
proof -
  let ?blob = "bytes_of_string ''hello-world''"
  let ?h = "hex_EncodeToString (sha256_Sum256 ?blob)"
  let ?good = "\<lparr>meta_UUID = ''550e8400-e29b-41d4-a716-446655440000'', meta_Hash = ?h,
      meta_TimeStamp = ''2025-07-30T16:52:13Z''\<rparr>"
  let ?bad = "\<lparr>meta_UUID = ''550e8400-e29b-41d4-a716-446655440000'', meta_Hash = ''00'',
      meta_TimeStamp = ''2025-07-30T16:52:13Z''\<rparr>"
  let ?sig = "of_nat 3233 # sha256_Sum256 (projr (demo_Marshal
        \<lparr>Uuid = ''550e8400-e29b-41d4-a716-446655440000'',
         Blob = string_of_bytes ?blob, Hash = ?h, Timestamp = ''2025-07-30T16:52:13Z''\<rparr>))"
  have differ: "?h \<noteq> meta_Hash ?bad"
    using hex_sha256_length [of ?blob] by auto
  have rejected: "verifyCommand_check demo_libs demo_os ''./public.pem'' ?bad ?blob [1] =
      (Returned (Some (New (''hash mismatch! Expected: '' @ ''00'' @ '', Computed: '' @ ?h))),
       [DidHashContent])"
    using verify_hash_then_signature [where l = demo_libs and fs = demo_os
        and publicKeyPath = "''./public.pem''" and meta = ?bad and blobBytes = ?blob
        and sig = "[1]"] differ
    by simp
  have verdict: "fst (verifyCommand_check demo_libs demo_os ''./public.pem'' ?good ?blob ?sig)
      = Returned None"
    using verify_hash_then_signature [where l = demo_libs and fs = demo_os
        and publicKeyPath = "''./public.pem''" and meta = ?good and blobBytes = ?blob
        and sig = ?sig]
    by (simp add: demo_libs_def demo_os_def demo_Marshal_def demo_key_def
        verifyCommand_payload_def)
  have steps: "snd (verifyCommand_check demo_libs demo_os ''./public.pem'' ?good ?blob ?sig)
      = [DidHashContent, DidMarshalPayload, DidReadPublicKey, DidDecodePEM, DidParsePublicKey,
         DidHashPayload, DidVerifyPSS]"
    by (simp add: verifyCommand_check_def Let_def demo_libs_def demo_os_def demo_Marshal_def
        demo_key_def verifyCommand_payload_def)
  show ?thesis
    using rejected verdict steps by (simp add: prod_eq_iff)
qed

section \<open>The signed bytes\<close>

text \<open>A string written to a file as bytes and read back is the same string.\<close>

lemma string_of_bytes_of_string: "string_of_bytes (bytes_of_string s) = s"
proof -
  have "char_of (unat (of_nat (of_char c :: nat) :: byte)) = c" for c :: char
  proof -
    have "unat (of_nat (of_char c :: nat) :: byte) = of_char c mod 256"
      by (simp add: unat_of_nat)
    then show ?thesis by simp
  qed
  then show ?thesis
    by (simp add: string_of_bytes_def bytes_of_string_def map_idI)
qed

text \<open>
  The two ends together: the artefacts that the client writes for a record it has
  retrieved (the content as bytes, the three fields of the metadata, the signature) pass
  the verifier's checks, when the key file holds the service's public key.
\<close>

lemma offline_verification_of_stored_record:
  assumes uuid: "length (uuid_New env) = 16"
      and keys: "NewRSASignerServiceFromFile l fs pemFile = Inr sv"
      and pss: "pss_sound l"
      and stored: "StoreBlob l \<lparr>signer = Some sv\<rparr> env tbl (Some \<lparr>req_Blob = C\<rparr>) = (Inr resp, tbl', w)"
      and got: "GetSignedBlob None tbl' (Some \<lparr>req_Uuid = resp_Uuid resp\<rparr>) = Inr r"
      and keyfile: "os_ReadFile fs' publicKeyPath = Inr pubBytes"
        "pem_Decode l pubBytes = Some block" "pem_Type block = ''PUBLIC KEY''"
        "x509_ParsePKIXPublicKey l (pem_Bytes block) = Inr (RSA_PublicKey pub)"
        "publicKey sv = Some pub"
  shows "fst (verifyCommand_check l fs' publicKeyPath
           \<lparr>meta_UUID = Uuid (resp_Payload r), meta_Hash = Hash (resp_Payload r),
            meta_TimeStamp = Timestamp (resp_Payload r)\<rparr>
           (bytes_of_string (Blob (resp_Payload r))) (resp_Signature r)) = Returned None"
proof -
  let ?h = "hex_EncodeToString (sha256_Sum256 (bytes_of_string C))"
  let ?p = "payloadToBeSigned (uuid_String (uuid_New env)) C ?h (time_Now env)"
  from stored_record_retrieved [OF uuid keys pss stored] got obtain m where
      r: "resp_Payload r = ?p"
    and m: "proto_Marshal l ?p = Inr m"
    and ok: "rsa_VerifyPSS l pub (sha256_Sum256 m) (resp_Signature r) = None"
    using keyfile(5) by auto
  have payload: "verifyCommand_payload
           \<lparr>meta_UUID = Uuid ?p, meta_Hash = Hash ?p, meta_TimeStamp = Timestamp ?p\<rparr>
           (bytes_of_string (Blob ?p)) = ?p"
    by (simp add: verifyCommand_payload_def payloadToBeSigned_def string_of_bytes_of_string)
  have hashok: "hex_EncodeToString (sha256_Sum256 (bytes_of_string (Blob ?p))) = Hash ?p"
    by (simp add: payloadToBeSigned_def)
  show ?thesis
    unfolding r
    by (simp add: verifyCommand_check_def Let_def payload m keyfile ok hashok)
qed

end
